theory Spec2Isabelle
  imports Complex_Main "HOL-Library.Word" "HOL-Library.FSet"
begin

section \<open>The tagging interface of a kernel (framework/src/interfaces/TaggingInterface.C)\<close>

text \<open>
  A \<open>TaggingInterface\<close> keeps two sets of tag ids (the vectors and the matrices a kernel
  fills), an array of pointers to the residual blocks and one to the Jacobian blocks of the
  assembly, and two local buffers. The constructor resolves the configured tag names,
  \<open>useVectorTag\<close>/\<open>useMatrixTag\<close> add a tag, \<open>prepareVectorTag\<close>/\<open>prepareMatrixTag\<close>
  bind one block per tag and reset the local buffer, and the four \<open>...TaggedLocal...\<close>
  functions add or copy the local buffer into every bound block.
\<close>

subsection \<open>Basic types\<close>

text \<open>\<open>TagID\<close> and the variable numbers are \<open>unsigned int\<close>; \<open>TagName\<close> is a string.\<close>

type_synonym TagID = "32 word"
type_synonym VarNum = "32 word"
type_synonym TagName = string

text \<open>
  \<open>mooseError(args...)\<close> streams its arguments into one message and raises it. The
  arguments are kept as they are passed, a string or a tag id, without formatting the number.
  \<open>mooseAssert(cond, msg)\<close> raises with its message when the condition is false.
  Dereferencing a null block pointer and adding dense blocks of different shapes are
  undefined in the source; the model stops there with an error of their own.
\<close>

datatype msg_arg = Str string | Num TagID

datatype error =
    MooseError "msg_arg list"
  | AssertionFailed string
  | NullPointer
  | ShapeMismatch

text \<open>
  A member function either returns (\<open>Done\<close>) or raises (\<open>Failed\<close>); both carry the state
  at that moment, so that what a raising call has already changed stays visible.
\<close>

datatype 's outcome = Done 's | Failed error 's

fun state_of :: "'s outcome \<Rightarrow> 's" where
  "state_of (Done s) = s"
| "state_of (Failed e s) = s"

fun is_Done :: "'s outcome \<Rightarrow> bool" where
  "is_Done (Done s) = True"
| "is_Done (Failed e s) = False"

subsection \<open>Dense blocks\<close>

text \<open>
  Modelled from the spec: \<open>DenseVector<Number>\<close> and \<open>DenseMatrix<Number>\<close> come from
  libMesh and are not among the sources. The spec takes them as dense blocks that
  support resize, zero-fill, elementwise add and elementwise assign. A vector is the list
  of its entries; a matrix has \<open>m()\<close> rows, \<open>n()\<close> columns and its entries in one list.
  The entry type \<open>'a\<close> stands for \<open>Number\<close>: only its \<open>0\<close> and its \<open>+\<close> are used, and
  nothing is assumed of them. Adding blocks of different shapes is undefined there
  (\<open>ShapeMismatch\<close> here). Assignment \<open>*re = _local_re\<close> copies the block, shape included.
\<close>

type_synonym 'a DenseVector = "'a list"

record 'a DenseMatrix =
  dm_m :: nat
  dm_n :: nat
  dm_val :: "'a list"

definition DenseVector_size :: "'a DenseVector \<Rightarrow> nat" where
  "DenseVector_size v = length v"

definition DenseVector_resize :: "nat \<Rightarrow> ('a::zero) DenseVector \<Rightarrow> 'a DenseVector" where
  "DenseVector_resize k v = take k v @ replicate (k - length v) 0"

definition DenseVector_zero :: "('a::zero) DenseVector \<Rightarrow> 'a DenseVector" where
  "DenseVector_zero v = map (\<lambda>_. 0) v"

definition DenseVector_add :: "('a::plus) DenseVector \<Rightarrow> 'a DenseVector \<Rightarrow> error + 'a DenseVector" where
  "DenseVector_add v w =
     (if length v = length w then Inr (map2 (+) v w) else Inl ShapeMismatch)"

definition DenseMatrix_resize :: "nat \<Rightarrow> nat \<Rightarrow> ('a::zero) DenseMatrix \<Rightarrow> 'a DenseMatrix" where
  "DenseMatrix_resize r c A =
     \<lparr>dm_m = r, dm_n = c,
      dm_val = take (r * c) (dm_val A) @ replicate (r * c - length (dm_val A)) 0\<rparr>"

definition DenseMatrix_zero :: "('a::zero) DenseMatrix \<Rightarrow> 'a DenseMatrix" where
  "DenseMatrix_zero A = A\<lparr>dm_val := map (\<lambda>_. 0) (dm_val A)\<rparr>"

definition same_shape :: "'a DenseMatrix \<Rightarrow> 'a DenseMatrix \<Rightarrow> bool" where
  "same_shape A B \<longleftrightarrow>
     dm_m A = dm_m B \<and> dm_n A = dm_n B \<and> length (dm_val A) = length (dm_val B)"

definition DenseMatrix_add :: "('a::plus) DenseMatrix \<Rightarrow> 'a DenseMatrix \<Rightarrow> error + 'a DenseMatrix" where
  "DenseMatrix_add A B =
     (if same_shape A B then Inr (A\<lparr>dm_val := map2 (+) (dm_val A) (dm_val B)\<rparr>)
      else Inl ShapeMismatch)"

text \<open>
  \<open>Number\<close> is a \<open>double\<close> unless libMesh is built for complex numbers, and the sum of two
  doubles is the exact sum rounded to the nearest double, ties to the even one (IEEE 754
  binary64, the default rounding). \<open>whole_double\<close> holds the doubles that are whole numbers,
  \<open>Dbl n\<close> being the double of value \<open>n\<close>. Up to \<open>2 ^ 53\<close> in size every whole number is
  a double; from there on the doubles are \<open>ulp\<close> apart, 2 up to \<open>2 ^ 54\<close>, 4 up to
  \<open>2 ^ 55\<close> and so on. The sum of two whole doubles is a whole number, and
  \<open>round_to_double\<close> gives the double it is rounded to. Overflow is left out: no sum below
  comes near the largest double.
\<close>

function ulp :: "nat \<Rightarrow> nat" where
  "ulp n = (if n < 2 ^ 53 then 1 else 2 * ulp (n div 2))"
  by pat_completeness auto
termination
  by (relation "measure id") auto

declare ulp.simps [simp del]

definition round_to_double :: "int \<Rightarrow> int" where
  "round_to_double n =
     (let u = int (ulp (nat \<bar>n\<bar>)); q = n div u; r = n mod u
      in if 2 * r < u then q * u
         else if u < 2 * r then (q + 1) * u
         else if even q then q * u else (q + 1) * u)"

datatype whole_double = Dbl int

instantiation whole_double :: zero
begin

definition zero_whole_double :: whole_double where
  "zero_whole_double = Dbl 0"

instance ..

end

instantiation whole_double :: plus
begin

fun plus_whole_double :: "whole_double \<Rightarrow> whole_double \<Rightarrow> whole_double" where
  "plus_whole_double (Dbl m) (Dbl n) = Dbl (round_to_double (m + n))"

instance ..

end

subsection \<open>The collaborators: parameters, tag registry, assembly\<close>

text \<open>
  Modelled from the spec: \<open>MultiMooseEnum\<close> is declared outside the sources. It is the list
  of the names currently selected, in the order a range-for visits them; \<open>isValid()\<close> says
  that at least one name is selected.
\<close>

type_synonym MultiMooseEnum = "TagName list"

definition isValid :: "MultiMooseEnum \<Rightarrow> bool" where
  "isValid e \<longleftrightarrow> e \<noteq> []"

text \<open>
  The four parameters \<open>validParams<TaggingInterface>()\<close> declares (\<open>vector_tags\<close>,
  \<open>matrix_tags\<close>, \<open>extra_vector_tags\<close>, \<open>extra_matrix_tags\<close>), with the values the
  constructor reads through \<open>_tag_params.get\<close>.
\<close>

record InputParameters =
  param_vector_tags :: MultiMooseEnum
  param_matrix_tags :: MultiMooseEnum
  param_extra_vector_tags :: "TagName list"
  param_extra_matrix_tags :: "TagName list"

record MooseObject =
  name :: string
  parameters :: InputParameters

text \<open>
  The defaults of \<open>validParams<TaggingInterface>()\<close>: \<open>vector_tags\<close> is \<open>nontime\<close>,
  \<open>matrix_tags\<close> is \<open>system\<close>, the two extra lists are declared without a value.
\<close>

definition validParams :: InputParameters where
  "validParams =
     \<lparr>param_vector_tags = [''nontime''], param_matrix_tags = [''system''],
      param_extra_vector_tags = [], param_extra_matrix_tags = []\<rparr>"

text \<open>
  Modelled from the spec: \<open>SubProblem\<close>, the tag registry, is not among the sources, and is
  taken as a parameter: the six functions of its interface that the tagging interface calls.
  \<open>getVectorTagID\<close> and \<open>getMatrixTagID\<close> may raise: a tag that was never created cannot be
  resolved (the constructor says of the extra tags that they should be created in the
  system already, otherwise they cannot be added, and \<open>useVectorTag\<close> checks existence
  before it resolves a name). So they return an error or an id. Nothing relates the six functions to each
  other. The argument \<open>sp\<close> of the functions below is the state of the object that
  \<open>_subproblem\<close> refers to at the time of the call.
\<close>

record SubProblem =
  vectorTagExists :: "TagName \<Rightarrow> bool"
  vectorTagExistsID :: "TagID \<Rightarrow> bool"
  getVectorTagID :: "TagName \<Rightarrow> error + TagID"
  matrixTagExists :: "TagName \<Rightarrow> bool"
  matrixTagExistsID :: "TagID \<Rightarrow> bool"
  getMatrixTagID :: "TagName \<Rightarrow> error + TagID"

text \<open>
  Modelled from the spec: \<open>Assembly\<close> is not among the sources. It owns one dense vector
  block for every (variable, tag) and one dense matrix block for every (row variable,
  column variable, tag); \<open>residualBlock\<close> and \<open>jacobianBlock\<close> return a reference to the
  block of their arguments. A pointer to a block is therefore the arguments that select
  it, and two pointers are equal exactly when they select the same block.
\<close>

record 'a Assembly =
  sub_Re :: "VarNum \<Rightarrow> TagID \<Rightarrow> 'a DenseVector"
  sub_Ke :: "VarNum \<Rightarrow> VarNum \<Rightarrow> TagID \<Rightarrow> 'a DenseMatrix"

datatype vector_ptr = ResidualBlockPtr VarNum TagID

datatype matrix_ptr = JacobianBlockPtr VarNum VarNum TagID

definition residualBlock :: "'a Assembly \<Rightarrow> VarNum \<Rightarrow> TagID \<Rightarrow> vector_ptr" where
  "residualBlock assembly ivar tag = ResidualBlockPtr ivar tag"

definition jacobianBlock :: "'a Assembly \<Rightarrow> VarNum \<Rightarrow> VarNum \<Rightarrow> TagID \<Rightarrow> matrix_ptr" where
  "jacobianBlock assembly ivar jvar tag = JacobianBlockPtr ivar jvar tag"

fun vector_at :: "'a Assembly \<Rightarrow> vector_ptr \<Rightarrow> 'a DenseVector" where
  "vector_at assembly (ResidualBlockPtr ivar tag) = sub_Re assembly ivar tag"

fun matrix_at :: "'a Assembly \<Rightarrow> matrix_ptr \<Rightarrow> 'a DenseMatrix" where
  "matrix_at assembly (JacobianBlockPtr ivar jvar tag) = sub_Ke assembly ivar jvar tag"

fun store_vector :: "'a Assembly \<Rightarrow> vector_ptr \<Rightarrow> 'a DenseVector \<Rightarrow> 'a Assembly" where
  "store_vector assembly (ResidualBlockPtr ivar tag) v =
     assembly\<lparr>sub_Re := (sub_Re assembly)(ivar := (sub_Re assembly ivar)(tag := v))\<rparr>"

fun store_matrix :: "'a Assembly \<Rightarrow> matrix_ptr \<Rightarrow> 'a DenseMatrix \<Rightarrow> 'a Assembly" where
  "store_matrix assembly (JacobianBlockPtr ivar jvar tag) A =
     assembly\<lparr>sub_Ke := (sub_Ke assembly)
        (ivar := (sub_Ke assembly ivar)(jvar := (sub_Ke assembly ivar jvar)(tag := A)))\<rparr>"

subsection \<open>The object\<close>

text \<open>
  Modelled from the spec: the members are declared in TaggingInterface.h, which is not
  among the sources. \<open>_vector_tags\<close> and \<open>_matrix_tags\<close> are sets of unique tag ids
  (\<open>insert\<close>, \<open>size\<close>, \<open>begin\<close>): duplicates collapse, and the iteration does not depend
  on the order of insertion. The spec leaves open which order the iteration has. The
  functions below visit the ids in ascending order (\<open>sorted_list_of_fset\<close>); this order is a
  choice of the model; the sources at hand do not fix it. \<open>_re_blocks\<close> and \<open>_ke_blocks\<close> are
  vectors of block pointers, \<open>None\<close> being the null pointer that \<open>resize\<close> fills in.
  \<open>_local_re\<close> and \<open>_local_ke\<close> are the local dense vector and matrix, empty at first.
\<close>

record 'a TaggingInterface =
  moose_object :: MooseObject
  vector_tags :: "TagID fset"
  matrix_tags :: "TagID fset"
  re_blocks :: "vector_ptr option list"
  ke_blocks :: "matrix_ptr option list"
  local_re :: "'a DenseVector"
  local_ke :: "'a DenseMatrix"

text \<open>\<open>std::vector::resize\<close> on a vector of pointers: cut, or pad with null pointers.\<close>

definition resize_ptrs :: "nat \<Rightarrow> 'p option list \<Rightarrow> 'p option list" where
  "resize_ptrs k ps = take k ps @ replicate (k - length ps) None"

subsection \<open>Construction\<close>

text \<open>
  The loops \<open>for (auto & n : names) tags.insert(get(n))\<close> of the constructor: the first
  name that does not resolve raises, and nothing after it runs.
\<close>

fun insert_tag_ids ::
  "(TagName \<Rightarrow> error + TagID) \<Rightarrow> TagName list \<Rightarrow> TagID fset \<Rightarrow> error + TagID fset" where
  "insert_tag_ids get [] tags = Inr tags"
| "insert_tag_ids get (n # ns) tags =
     (case get n of
        Inl e \<Rightarrow> Inl e
      | Inr i \<Rightarrow> insert_tag_ids get ns (finsert i tags))"

definition no_vector_tag_error :: "MooseObject \<Rightarrow> error" where
  "no_vector_tag_error obj =
     MooseError [Str ''MUST provide at least one vector_tag for Kernel: '', Str (name obj)]"

definition no_matrix_tag_error :: "MooseObject \<Rightarrow> error" where
  "no_matrix_tag_error obj =
     MooseError [Str ''MUST provide at least one matrix_tag for Kernel: '', Str (name obj)]"

text \<open>
  The constructor, in the order of the source: the check of \<open>vector_tags\<close>, its names, the
  extra vector tags, the check of \<open>matrix_tags\<close>, its names, the extra matrix tags, and
  the two \<open>resize\<close> calls. An error leaves no object (\<open>Inl\<close>).
\<close>

definition TaggingInterface_ctor ::
  "SubProblem \<Rightarrow> MooseObject \<Rightarrow> error + ('a::zero) TaggingInterface" where
  "TaggingInterface_ctor sp obj =
     (if \<not> isValid (param_vector_tags (parameters obj)) then Inl (no_vector_tag_error obj)
      else
        case insert_tag_ids (getVectorTagID sp) (param_vector_tags (parameters obj)) {||} of
          Inl e \<Rightarrow> Inl e
        | Inr vt0 \<Rightarrow>
        case insert_tag_ids (getVectorTagID sp) (param_extra_vector_tags (parameters obj)) vt0 of
          Inl e \<Rightarrow> Inl e
        | Inr vt \<Rightarrow>
        if \<not> isValid (param_matrix_tags (parameters obj)) then Inl (no_matrix_tag_error obj)
        else
        case insert_tag_ids (getMatrixTagID sp) (param_matrix_tags (parameters obj)) {||} of
          Inl e \<Rightarrow> Inl e
        | Inr mt0 \<Rightarrow>
        case insert_tag_ids (getMatrixTagID sp) (param_extra_matrix_tags (parameters obj)) mt0 of
          Inl e \<Rightarrow> Inl e
        | Inr mt \<Rightarrow>
          Inr \<lparr>moose_object = obj, vector_tags = vt, matrix_tags = mt,
               re_blocks = resize_ptrs (fcard vt) [],
               ke_blocks = resize_ptrs (fcard mt) [],
               local_re = [],
               local_ke = \<lparr>dm_m = 0, dm_n = 0, dm_val = []\<rparr>\<rparr>)"

subsection \<open>Adding a tag after construction\<close>

text \<open>
  \<open>useVectorTag\<close> and \<open>useMatrixTag\<close> are overloaded: by name (\<open>useVectorTag\<close>,
  \<open>useMatrixTag\<close>) and by id (\<open>useVectorTagID\<close>, \<open>useMatrixTagID\<close>). Each checks that
  the tag exists, raises if not, and inserts the id into the set. None of them touches the
  pointer arrays.
\<close>

definition useVectorTag :: "SubProblem \<Rightarrow> TagName \<Rightarrow> 'a TaggingInterface \<Rightarrow> 'a TaggingInterface outcome" where
  "useVectorTag sp tag_name ti =
     (if \<not> vectorTagExists sp tag_name
      then Failed (MooseError [Str ''Vector tag '', Str tag_name, Str '' does not exsit in system'']) ti
      else case getVectorTagID sp tag_name of
             Inl e \<Rightarrow> Failed e ti
           | Inr i \<Rightarrow> Done (ti\<lparr>vector_tags := finsert i (vector_tags ti)\<rparr>))"

definition useMatrixTag :: "SubProblem \<Rightarrow> TagName \<Rightarrow> 'a TaggingInterface \<Rightarrow> 'a TaggingInterface outcome" where
  "useMatrixTag sp tag_name ti =
     (if \<not> matrixTagExists sp tag_name
      then Failed (MooseError [Str ''Matrix tag '', Str tag_name, Str '' does not exsit in system'']) ti
      else case getMatrixTagID sp tag_name of
             Inl e \<Rightarrow> Failed e ti
           | Inr i \<Rightarrow> Done (ti\<lparr>matrix_tags := finsert i (matrix_tags ti)\<rparr>))"

definition useVectorTagID :: "SubProblem \<Rightarrow> TagID \<Rightarrow> 'a TaggingInterface \<Rightarrow> 'a TaggingInterface outcome" where
  "useVectorTagID sp tag_id ti =
     (if \<not> vectorTagExistsID sp tag_id
      then Failed (MooseError [Str ''Vector tag '', Num tag_id, Str '' does not exsit in system'']) ti
      else Done (ti\<lparr>vector_tags := finsert tag_id (vector_tags ti)\<rparr>))"

definition useMatrixTagID :: "SubProblem \<Rightarrow> TagID \<Rightarrow> 'a TaggingInterface \<Rightarrow> 'a TaggingInterface outcome" where
  "useMatrixTagID sp tag_id ti =
     (if \<not> matrixTagExistsID sp tag_id
      then Failed (MooseError [Str ''Matrix tag '', Num tag_id, Str '' does not exsit in system'']) ti
      else Done (ti\<lparr>matrix_tags := finsert tag_id (matrix_tags ti)\<rparr>))"

subsection \<open>Binding the blocks\<close>

text \<open>
  The loop \<open>for (i = beginIndex(tags); i < tags.size(); i++, ++tag) blocks[i] = &block(*tag)\<close>,
  \<open>beginIndex\<close> being 0: the index and the iterator advance together over the ids of
  the set, and each step stores one pointer.
\<close>

fun bind_blocks :: "(TagID \<Rightarrow> 'p) \<Rightarrow> nat \<Rightarrow> TagID list \<Rightarrow> 'p option list \<Rightarrow> 'p option list" where
  "bind_blocks block i [] ps = ps"
| "bind_blocks block i (t # ts) ps = bind_blocks block (Suc i) ts (ps[i := Some (block t)])"

text \<open>
  The state of a call is the object and the assembly its pointers point into.
  \<open>prepareVectorTag\<close>: resize the pointer array, assert at least one tag, bind, then size the
  local vector to the first bound block and zero it. With no tag the assertion fails after
  the resize; a build without assertions would go on to read \<open>_re_blocks[0]\<close> of an
  empty array, which is undefined, so the call stops at the assertion here.
\<close>

definition prepareVectorTag ::
  "VarNum \<Rightarrow> ('a::zero) TaggingInterface \<times> 'a Assembly \<Rightarrow> ('a TaggingInterface \<times> 'a Assembly) outcome" where
  "prepareVectorTag ivar s =
     (let ti = fst s; assembly = snd s;
          ti1 = ti\<lparr>re_blocks := resize_ptrs (fcard (vector_tags ti)) (re_blocks ti)\<rparr>
      in if \<not> 1 \<le> fcard (vector_tags ti1)
         then Failed (AssertionFailed ''we need at least one active tag'') (ti1, assembly)
         else
           let ti2 = ti1\<lparr>re_blocks := bind_blocks (residualBlock assembly ivar) 0
                          (sorted_list_of_fset (vector_tags ti1)) (re_blocks ti1)\<rparr>
           in case re_blocks ti2 ! 0 of
                None \<Rightarrow> Failed NullPointer (ti2, assembly)
              | Some p \<Rightarrow>
                  Done (ti2\<lparr>local_re := DenseVector_zero
                          (DenseVector_resize (DenseVector_size (vector_at assembly p)) (local_re ti2))\<rparr>,
                        assembly))"

definition prepareMatrixTag ::
  "VarNum \<Rightarrow> VarNum \<Rightarrow> ('a::zero) TaggingInterface \<times> 'a Assembly \<Rightarrow> ('a TaggingInterface \<times> 'a Assembly) outcome" where
  "prepareMatrixTag ivar jvar s =
     (let ti = fst s; assembly = snd s;
          ti1 = ti\<lparr>ke_blocks := resize_ptrs (fcard (matrix_tags ti)) (ke_blocks ti)\<rparr>
      in if \<not> 1 \<le> fcard (matrix_tags ti1)
         then Failed (AssertionFailed ''we need at least one active tag'') (ti1, assembly)
         else
           let ti2 = ti1\<lparr>ke_blocks := bind_blocks (jacobianBlock assembly ivar jvar) 0
                          (sorted_list_of_fset (matrix_tags ti1)) (ke_blocks ti1)\<rparr>
           in case ke_blocks ti2 ! 0 of
                None \<Rightarrow> Failed NullPointer (ti2, assembly)
              | Some p \<Rightarrow>
                  Done (ti2\<lparr>local_ke := DenseMatrix_zero
                          (DenseMatrix_resize (dm_m (matrix_at assembly p)) (dm_n (matrix_at assembly p))
                             (local_ke ti2))\<rparr>,
                        assembly))"

subsection \<open>Committing the local buffers\<close>

text \<open>
  The loops \<open>for (auto & re : _re_blocks) *re += _local_re\<close> and \<open>*re = _local_re\<close>, and
  their matrix twins, over the pointer array from its first entry on. A step that fails
  leaves the blocks before it changed.
\<close>

fun accumulate_vectors ::
  "('a::plus) DenseVector \<Rightarrow> vector_ptr option list \<Rightarrow> 'a Assembly \<Rightarrow> 'a Assembly outcome" where
  "accumulate_vectors loc [] assembly = Done assembly"
| "accumulate_vectors loc (None # ps) assembly = Failed NullPointer assembly"
| "accumulate_vectors loc (Some p # ps) assembly =
     (case DenseVector_add (vector_at assembly p) loc of
        Inl e \<Rightarrow> Failed e assembly
      | Inr v \<Rightarrow> accumulate_vectors loc ps (store_vector assembly p v))"

fun assign_vectors ::
  "'a DenseVector \<Rightarrow> vector_ptr option list \<Rightarrow> 'a Assembly \<Rightarrow> 'a Assembly outcome" where
  "assign_vectors loc [] assembly = Done assembly"
| "assign_vectors loc (None # ps) assembly = Failed NullPointer assembly"
| "assign_vectors loc (Some p # ps) assembly = assign_vectors loc ps (store_vector assembly p loc)"

fun accumulate_matrices ::
  "('a::plus) DenseMatrix \<Rightarrow> matrix_ptr option list \<Rightarrow> 'a Assembly \<Rightarrow> 'a Assembly outcome" where
  "accumulate_matrices loc [] assembly = Done assembly"
| "accumulate_matrices loc (None # ps) assembly = Failed NullPointer assembly"
| "accumulate_matrices loc (Some p # ps) assembly =
     (case DenseMatrix_add (matrix_at assembly p) loc of
        Inl e \<Rightarrow> Failed e assembly
      | Inr A \<Rightarrow> accumulate_matrices loc ps (store_matrix assembly p A))"

fun assign_matrices ::
  "'a DenseMatrix \<Rightarrow> matrix_ptr option list \<Rightarrow> 'a Assembly \<Rightarrow> 'a Assembly outcome" where
  "assign_matrices loc [] assembly = Done assembly"
| "assign_matrices loc (None # ps) assembly = Failed NullPointer assembly"
| "assign_matrices loc (Some p # ps) assembly = assign_matrices loc ps (store_matrix assembly p loc)"

text \<open>The object is passed through: the loops write through the pointers only.\<close>

fun with_object :: "'t \<Rightarrow> 'b outcome \<Rightarrow> ('t \<times> 'b) outcome" where
  "with_object ti (Done assembly) = Done (ti, assembly)"
| "with_object ti (Failed e assembly) = Failed e (ti, assembly)"

definition accumulateTaggedLocalResidual ::
  "('a::plus) TaggingInterface \<times> 'a Assembly \<Rightarrow> ('a TaggingInterface \<times> 'a Assembly) outcome" where
  "accumulateTaggedLocalResidual s =
     with_object (fst s) (accumulate_vectors (local_re (fst s)) (re_blocks (fst s)) (snd s))"

definition assignTaggedLocalResidual ::
  "'a TaggingInterface \<times> 'a Assembly \<Rightarrow> ('a TaggingInterface \<times> 'a Assembly) outcome" where
  "assignTaggedLocalResidual s =
     with_object (fst s) (assign_vectors (local_re (fst s)) (re_blocks (fst s)) (snd s))"

definition accumulateTaggedLocalMatrix ::
  "('a::plus) TaggingInterface \<times> 'a Assembly \<Rightarrow> ('a TaggingInterface \<times> 'a Assembly) outcome" where
  "accumulateTaggedLocalMatrix s =
     with_object (fst s) (accumulate_matrices (local_ke (fst s)) (ke_blocks (fst s)) (snd s))"

definition assignTaggedLocalMatrix ::
  "'a TaggingInterface \<times> 'a Assembly \<Rightarrow> ('a TaggingInterface \<times> 'a Assembly) outcome" where
  "assignTaggedLocalMatrix s =
     with_object (fst s) (assign_matrices (local_ke (fst s)) (ke_blocks (fst s)) (snd s))"

text \<open>The entries of \<open>B\<close> added to those of \<open>A\<close>, the shape of \<open>A\<close> kept.\<close>

definition add_vals :: "('a::plus) DenseMatrix \<Rightarrow> 'a DenseMatrix \<Rightarrow> 'a DenseMatrix" where
  "add_vals A B = A\<lparr>dm_val := map2 (+) (dm_val A) (dm_val B)\<rparr>"

subsection \<open>Concrete kernels\<close>

text \<open>
  A registry given by two tables of names and ids, one per namespace: a name exists when
  the table has it, an id exists when some name has it, and resolving a name that the
  table lacks raises.
\<close>

definition table_registry :: "(TagName \<times> TagID) list \<Rightarrow> (TagName \<times> TagID) list \<Rightarrow> SubProblem" where
  "table_registry vs ms =
     \<lparr>vectorTagExists = (\<lambda>n. map_of vs n \<noteq> None),
      vectorTagExistsID = (\<lambda>i. i \<in> snd ` set vs),
      getVectorTagID = (\<lambda>n. case map_of vs n of
          None \<Rightarrow> Inl (MooseError [Str ''Vector tag: '', Str n, Str '' does not exist''])
        | Some i \<Rightarrow> Inr i),
      matrixTagExists = (\<lambda>n. map_of ms n \<noteq> None),
      matrixTagExistsID = (\<lambda>i. i \<in> snd ` set ms),
      getMatrixTagID = (\<lambda>n. case map_of ms n of
          None \<Rightarrow> Inl (MooseError [Str ''Matrix tag: '', Str n, Str '' does not exist''])
        | Some i \<Rightarrow> Inr i)\<rparr>"

text \<open>
  The registry of the examples has the vector tags \<open>nontime\<close> (0) and \<open>time\<close> (1) and the
  matrix tags \<open>system\<close> (0) and \<open>nontime\<close> (1). The kernel \<open>diff\<close> selects the vector tags
  \<open>time\<close> and \<open>nontime\<close> and the matrix tags \<open>nontime\<close> and \<open>system\<close>, in this order (the
  larger id first), and names \<open>time\<close> once more as an extra vector tag.
  \<open>example_kernel\<close> is the object its construction gives, \<open>example_prepared_kernel\<close> the
  object after \<open>prepareVectorTag\<close> for variable 0 and \<open>prepareMatrixTag\<close> for the pair
  (0, 0) on \<open>example_assembly\<close>.
\<close>

definition example_registry :: SubProblem where
  "example_registry =
     table_registry [(''nontime'', 0), (''time'', 1)] [(''system'', 0), (''nontime'', 1)]"

definition example_object :: MooseObject where
  "example_object =
     \<lparr>name = ''diff'',
      parameters = \<lparr>param_vector_tags = [''time'', ''nontime''],
                    param_matrix_tags = [''nontime'', ''system''],
                    param_extra_vector_tags = [''time''],
                    param_extra_matrix_tags = []\<rparr>\<rparr>"

definition example_kernel :: "real TaggingInterface" where
  "example_kernel =
     \<lparr>moose_object = example_object, vector_tags = {|0, 1|}, matrix_tags = {|0, 1|},
      re_blocks = [None, None], ke_blocks = [None, None],
      local_re = [], local_ke = \<lparr>dm_m = 0, dm_n = 0, dm_val = []\<rparr>\<rparr>"

definition example_assembly :: "real Assembly" where
  "example_assembly =
     \<lparr>sub_Re = (\<lambda>ivar tag. if tag = 0 then [1, 2] else [10, 20]),
      sub_Ke = (\<lambda>ivar jvar tag.
         if tag = 0 then \<lparr>dm_m = 1, dm_n = 2, dm_val = [3, 4]\<rparr>
         else \<lparr>dm_m = 1, dm_n = 2, dm_val = [30, 40]\<rparr>)\<rparr>"

definition example_prepared_kernel :: "real TaggingInterface" where
  "example_prepared_kernel =
     \<lparr>moose_object = example_object, vector_tags = {|0, 1|}, matrix_tags = {|0, 1|},
      re_blocks = [Some (ResidualBlockPtr 0 0), Some (ResidualBlockPtr 0 1)],
      ke_blocks = [Some (JacobianBlockPtr 0 0 0), Some (JacobianBlockPtr 0 0 1)],
      local_re = [0, 0], local_ke = \<lparr>dm_m = 1, dm_n = 2, dm_val = [0, 0]\<rparr>\<rparr>"

definition example_local_ke :: "real DenseMatrix" where
  "example_local_ke = \<lparr>dm_m = 1, dm_n = 2, dm_val = [5, 5]\<rparr>"

text \<open>
  The kernel with the default parameters, and the object its construction gives on the
  registry of the examples.
\<close>

definition default_object :: MooseObject where
  "default_object = \<lparr>name = ''diff'', parameters = validParams\<rparr>"

definition default_kernel :: "real TaggingInterface" where
  "default_kernel =
     \<lparr>moose_object = default_object, vector_tags = {|0|}, matrix_tags = {|0|},
      re_blocks = [None], ke_blocks = [None],
      local_re = [], local_ke = \<lparr>dm_m = 0, dm_n = 0, dm_val = []\<rparr>\<rparr>"

text \<open>
  The kernel with the default parameters once more, with doubles in its blocks: its one
  residual block and its one Jacobian block hold the double \<open>10 ^ 16\<close>.
\<close>

definition rounding_kernel :: "whole_double TaggingInterface" where
  "rounding_kernel =
     \<lparr>moose_object = default_object, vector_tags = {|0|}, matrix_tags = {|0|},
      re_blocks = [None], ke_blocks = [None],
      local_re = [], local_ke = \<lparr>dm_m = 0, dm_n = 0, dm_val = []\<rparr>\<rparr>"

definition rounding_assembly :: "whole_double Assembly" where
  "rounding_assembly =
     \<lparr>sub_Re = (\<lambda>ivar tag. [Dbl 10000000000000000]),
      sub_Ke = (\<lambda>ivar jvar tag. \<lparr>dm_m = 1, dm_n = 1, dm_val = [Dbl 10000000000000000]\<rparr>)\<rparr>"

text \<open>
  Four more parameter sets for \<open>diff\<close>: a selected vector tag \<open>mine\<close> that the registry
  lacks; no vector tag; no matrix tag; and no matrix tag together with an extra vector tag
  \<open>mine\<close> that the registry lacks.
\<close>

definition unregistered_object :: MooseObject where
  "unregistered_object =
     \<lparr>name = ''diff'', parameters = validParams\<lparr>param_vector_tags := [''mine'']\<rparr>\<rparr>"

definition no_vector_tag_object :: MooseObject where
  "no_vector_tag_object =
     \<lparr>name = ''diff'', parameters = validParams\<lparr>param_vector_tags := []\<rparr>\<rparr>"

definition no_matrix_tag_object :: MooseObject where
  "no_matrix_tag_object =
     \<lparr>name = ''diff'', parameters = validParams\<lparr>param_matrix_tags := []\<rparr>\<rparr>"

definition no_matrix_tag_unregistered_extra_object :: MooseObject where
  "no_matrix_tag_unregistered_extra_object =
     \<lparr>name = ''diff'',
      parameters = validParams\<lparr>param_matrix_tags := [], param_extra_vector_tags := [''mine'']\<rparr>\<rparr>"

section \<open>Properties\<close>

subsection \<open>Pointer arrays and the iteration of a tag set\<close>

lemma length_resize_ptrs: "length (resize_ptrs k ps) = k"
  by (simp add: resize_ptrs_def)

lemma bind_blocks_eq:
  "i + length ts \<le> length ps \<Longrightarrow>
   bind_blocks block i ts ps = take i ps @ map (\<lambda>t. Some (block t)) ts @ drop (i + length ts) ps"
proof (induction ts arbitrary: i ps)
  case Nil
  then show ?case by simp
next
  case (Cons t ts)
  have "i < length ps" using Cons.prems by simp
  have "bind_blocks block (Suc i) ts (ps[i := Some (block t)]) =
        take (Suc i) (ps[i := Some (block t)]) @ map (\<lambda>t. Some (block t)) ts
          @ drop (Suc i + length ts) (ps[i := Some (block t)])"
    using Cons.prems by (intro Cons.IH) simp
  also have "take (Suc i) (ps[i := Some (block t)]) = take i ps @ [Some (block t)]"
    using \<open>i < length ps\<close> by (simp add: take_Suc_conv_app_nth)
  also have "drop (Suc i + length ts) (ps[i := Some (block t)]) = drop (i + length (t # ts)) ps"
    by simp
  finally show ?case by simp
qed

lemma bind_blocks_all:
  "length ps = length ts \<Longrightarrow> bind_blocks block 0 ts ps = map (\<lambda>t. Some (block t)) ts"
  using bind_blocks_eq [of 0 ts ps block] by simp

lemma length_sorted_list_of_fset: "length (sorted_list_of_fset S) = fcard S"
  by (simp add: sorted_list_of_fset.rep_eq fcard.rep_eq)

lemma distinct_sorted_list_of_fset: "distinct (sorted_list_of_fset S)"
  by (simp add: sorted_list_of_fset.rep_eq)

lemma sorted_list_of_fset_nonempty: "S \<noteq> {||} \<Longrightarrow> sorted_list_of_fset S \<noteq> []"
  by (metis fset_of_list_simps(1) sorted_list_of_fset_simps(2))

lemma fcard_pos: "S \<noteq> {||} \<Longrightarrow> 1 \<le> fcard S"
  by (metis One_nat_def Suc_leI fcard_0_eq neq0_conv)

lemma count_list_distinct: "distinct xs \<Longrightarrow> x \<in> set xs \<Longrightarrow> count_list xs x = 1"
  by (induction xs) auto

lemma count_sorted_list_of_fset: "t |\<in>| S \<Longrightarrow> count_list (sorted_list_of_fset S) t = 1"
  by (rule count_list_distinct) (simp_all add: distinct_sorted_list_of_fset)

lemma example_tags_sorted: "sorted_list_of_fset {|0, 1 :: TagID|} = [0, 1]"
  by code_simp

subsection \<open>What a prepare call returns\<close>

lemma prepareVectorTag_Done:
  assumes "vector_tags ti \<noteq> {||}"
  shows "prepareVectorTag ivar (ti, assembly) =
     Done (ti\<lparr>re_blocks := map (\<lambda>t. Some (ResidualBlockPtr ivar t)) (sorted_list_of_fset (vector_tags ti)),
              local_re := replicate (length (sub_Re assembly ivar (hd (sorted_list_of_fset (vector_tags ti))))) 0\<rparr>,
           assembly)"
proof -
  let ?ts = "sorted_list_of_fset (vector_tags ti)"
  have ne: "?ts \<noteq> []" using assms by (rule sorted_list_of_fset_nonempty)
  have b: "bind_blocks (residualBlock assembly ivar) 0 ?ts (resize_ptrs (fcard (vector_tags ti)) (re_blocks ti))
        = map (\<lambda>t. Some (ResidualBlockPtr ivar t)) ?ts"
    by (simp add: bind_blocks_all length_resize_ptrs length_sorted_list_of_fset residualBlock_def)
  have h: "map (\<lambda>t. Some (ResidualBlockPtr ivar t)) ?ts ! 0 = Some (ResidualBlockPtr ivar (hd ?ts))"
    using ne by (cases ?ts) simp_all
  show ?thesis
    using fcard_pos [OF assms]
    by (simp add: prepareVectorTag_def Let_def b h DenseVector_zero_def DenseVector_resize_def
        DenseVector_size_def map_replicate_const)
qed

lemma prepareMatrixTag_Done:
  assumes "matrix_tags ti \<noteq> {||}"
  shows "prepareMatrixTag ivar jvar (ti, assembly) =
     Done (ti\<lparr>ke_blocks := map (\<lambda>t. Some (JacobianBlockPtr ivar jvar t)) (sorted_list_of_fset (matrix_tags ti)),
              local_ke :=
                \<lparr>dm_m = dm_m (sub_Ke assembly ivar jvar (hd (sorted_list_of_fset (matrix_tags ti)))),
                 dm_n = dm_n (sub_Ke assembly ivar jvar (hd (sorted_list_of_fset (matrix_tags ti)))),
                 dm_val = replicate
                   (dm_m (sub_Ke assembly ivar jvar (hd (sorted_list_of_fset (matrix_tags ti)))) *
                    dm_n (sub_Ke assembly ivar jvar (hd (sorted_list_of_fset (matrix_tags ti))))) 0\<rparr>\<rparr>,
           assembly)"
proof -
  let ?ts = "sorted_list_of_fset (matrix_tags ti)"
  have ne: "?ts \<noteq> []" using assms by (rule sorted_list_of_fset_nonempty)
  have b: "bind_blocks (jacobianBlock assembly ivar jvar) 0 ?ts (resize_ptrs (fcard (matrix_tags ti)) (ke_blocks ti))
        = map (\<lambda>t. Some (JacobianBlockPtr ivar jvar t)) ?ts"
    by (simp add: bind_blocks_all length_resize_ptrs length_sorted_list_of_fset jacobianBlock_def)
  have h: "map (\<lambda>t. Some (JacobianBlockPtr ivar jvar t)) ?ts ! 0 = Some (JacobianBlockPtr ivar jvar (hd ?ts))"
    using ne by (cases ?ts) simp_all
  show ?thesis
    using fcard_pos [OF assms]
    by (simp add: prepareMatrixTag_def Let_def b h DenseMatrix_zero_def DenseMatrix_resize_def
        map_replicate_const)
qed

lemma prepareVectorTag_sizes:
  fixes ti :: "('a::zero) TaggingInterface"
  shows "length (re_blocks (fst (state_of (prepareVectorTag ivar (ti, a))))) =
         fcard (vector_tags (fst (state_of (prepareVectorTag ivar (ti, a)))))"
proof (cases "vector_tags ti = {||}")
  case True
  then show ?thesis by (simp add: prepareVectorTag_def Let_def length_resize_ptrs fcard_fempty)
next
  case False
  then show ?thesis by (simp add: prepareVectorTag_Done length_sorted_list_of_fset)
qed

lemma prepareMatrixTag_sizes:
  fixes ti :: "('a::zero) TaggingInterface"
  shows "length (ke_blocks (fst (state_of (prepareMatrixTag ivar jvar (ti, a))))) =
         fcard (matrix_tags (fst (state_of (prepareMatrixTag ivar jvar (ti, a)))))"
proof (cases "matrix_tags ti = {||}")
  case True
  then show ?thesis by (simp add: prepareMatrixTag_def Let_def length_resize_ptrs fcard_fempty)
next
  case False
  then show ?thesis by (simp add: prepareMatrixTag_Done length_sorted_list_of_fset)
qed

lemma example_prepareVectorTag:
  "prepareVectorTag 0 (example_kernel, example_assembly) =
     Done (example_kernel\<lparr>re_blocks := [Some (ResidualBlockPtr 0 0), Some (ResidualBlockPtr 0 1)],
                          local_re := [0, 0]\<rparr>, example_assembly)"
proof -
  have "vector_tags example_kernel \<noteq> {||}" by (simp add: example_kernel_def)
  from prepareVectorTag_Done [OF this, of 0 example_assembly] show ?thesis
    by (simp add: example_kernel_def example_assembly_def example_tags_sorted numeral_2_eq_2)
qed

lemma example_prepareMatrixTag:
  "prepareMatrixTag 0 0 (example_kernel, example_assembly) =
     Done (example_kernel\<lparr>ke_blocks := [Some (JacobianBlockPtr 0 0 0), Some (JacobianBlockPtr 0 0 1)],
                          local_ke := \<lparr>dm_m = 1, dm_n = 2, dm_val = [0, 0]\<rparr>\<rparr>, example_assembly)"
proof -
  have "matrix_tags example_kernel \<noteq> {||}" by (simp add: example_kernel_def)
  from prepareMatrixTag_Done [OF this, of 0 0 example_assembly] show ?thesis
    by (simp add: example_kernel_def example_assembly_def example_tags_sorted numeral_2_eq_2)
qed

lemma example_prepare_both:
  "prepareMatrixTag 0 0
     (example_kernel\<lparr>re_blocks := [Some (ResidualBlockPtr 0 0), Some (ResidualBlockPtr 0 1)],
                     local_re := [0, 0]\<rparr>, example_assembly) =
   Done (example_prepared_kernel, example_assembly)"
proof -
  let ?t1 = "example_kernel\<lparr>re_blocks := [Some (ResidualBlockPtr 0 0), Some (ResidualBlockPtr 0 1)],
                     local_re := [0, 0]\<rparr>"
  have "matrix_tags ?t1 \<noteq> {||}" by (simp add: example_kernel_def)
  from prepareMatrixTag_Done [OF this, of 0 0 example_assembly] show ?thesis
    by (simp add: example_kernel_def example_prepared_kernel_def example_assembly_def
        example_tags_sorted numeral_2_eq_2)
qed

subsection \<open>Construction and later additions\<close>

lemma insert_tag_ids_resolved:
  "\<forall>n\<in>set ns. \<exists>i. get n = Inr i \<Longrightarrow>
   \<exists>S. insert_tag_ids get ns T = Inr S \<and> fset S = fset T \<union> {i. \<exists>n\<in>set ns. get n = Inr i}"
proof (induction ns arbitrary: T)
  case Nil
  then show ?case by simp
next
  case (Cons n ns)
  then obtain i where i: "get n = Inr i" by auto
  from Cons.prems have "\<forall>n\<in>set ns. \<exists>i. get n = Inr i" by simp
  from Cons.IH [OF this, of "finsert i T"] obtain S where
    S: "insert_tag_ids get ns (finsert i T) = Inr S"
       "fset S = fset (finsert i T) \<union> {i. \<exists>n\<in>set ns. get n = Inr i}"
    by blast
  have "fset S = fset T \<union> {j. \<exists>m\<in>set (n # ns). get m = Inr j}"
    using S(2) i by auto
  with S(1) i show ?case by simp
qed

lemma ctor_sizes:
  "(TaggingInterface_ctor sp obj :: error + ('a::zero) TaggingInterface) = Inr ti \<Longrightarrow>
   length (re_blocks ti) = fcard (vector_tags ti) \<and> length (ke_blocks ti) = fcard (matrix_tags ti)"
  by (auto simp: TaggingInterface_ctor_def length_resize_ptrs split: if_splits sum.splits)

lemma funpow_fixed: "f x = x \<Longrightarrow> (f ^^ k) x = x"
  by (induction k) simp_all

lemma use_active_unchanged:
  "t |\<in>| vector_tags ti \<Longrightarrow> state_of (useVectorTagID sp t ti) = ti"
  "t |\<in>| matrix_tags ti \<Longrightarrow> state_of (useMatrixTagID sp t ti) = ti"
  "getVectorTagID sp n = Inr t \<Longrightarrow> t |\<in>| vector_tags ti \<Longrightarrow> state_of (useVectorTag sp n ti) = ti"
  "getMatrixTagID sp n = Inr t \<Longrightarrow> t |\<in>| matrix_tags ti \<Longrightarrow> state_of (useMatrixTag sp n ti) = ti"
  by (simp_all add: useVectorTagID_def useMatrixTagID_def useVectorTag_def useMatrixTag_def
      finsert_absorb)

lemma use_keeps_blocks:
  "re_blocks (state_of (useVectorTag sp n ti)) = re_blocks ti"
  "ke_blocks (state_of (useVectorTag sp n ti)) = ke_blocks ti"
  "re_blocks (state_of (useMatrixTag sp n ti)) = re_blocks ti"
  "ke_blocks (state_of (useMatrixTag sp n ti)) = ke_blocks ti"
  "re_blocks (state_of (useVectorTagID sp t ti)) = re_blocks ti"
  "ke_blocks (state_of (useVectorTagID sp t ti)) = ke_blocks ti"
  "re_blocks (state_of (useMatrixTagID sp t ti)) = re_blocks ti"
  "ke_blocks (state_of (useMatrixTagID sp t ti)) = ke_blocks ti"
  by (simp_all add: useVectorTag_def useMatrixTag_def useVectorTagID_def useMatrixTagID_def
      split: sum.splits)

lemma ctor_examples:
  "(TaggingInterface_ctor example_registry example_object :: error + real TaggingInterface) =
     Inr example_kernel"
  "(TaggingInterface_ctor example_registry default_object :: error + real TaggingInterface) =
     Inr default_kernel"
  "(TaggingInterface_ctor example_registry unregistered_object :: error + real TaggingInterface) =
     Inl (MooseError [Str ''Vector tag: '', Str ''mine'', Str '' does not exist''])"
  "(TaggingInterface_ctor example_registry no_matrix_tag_unregistered_extra_object
      :: error + real TaggingInterface) =
     Inl (MooseError [Str ''Vector tag: '', Str ''mine'', Str '' does not exist''])"
  by (auto simp: TaggingInterface_ctor_def example_registry_def example_object_def example_kernel_def
      default_object_def default_kernel_def
      table_registry_def validParams_def isValid_def resize_ptrs_def fcard_finsert_if
      unregistered_object_def no_matrix_tag_unregistered_extra_object_def numeral_2_eq_2)

lemma use_time_default:
  "useVectorTag example_registry ''time'' default_kernel =
     Done (default_kernel\<lparr>vector_tags := {|0, 1|}\<rparr>)"
  by (auto simp: useVectorTag_def example_registry_def table_registry_def default_kernel_def)

lemma example_registry_unregistered:
  "\<not> vectorTagExists example_registry ''mine''" "\<not> matrixTagExists example_registry ''mine''"
  "\<not> vectorTagExistsID example_registry 7" "\<not> matrixTagExistsID example_registry 7"
  by (simp_all add: example_registry_def table_registry_def)

lemma default_tags_sorted: "sorted_list_of_fset {|0 :: TagID|} = [0]"
  by code_simp

lemma ctor_rounding:
  "TaggingInterface_ctor example_registry default_object = Inr rounding_kernel"
  by (simp add: TaggingInterface_ctor_def example_registry_def default_object_def rounding_kernel_def
      table_registry_def validParams_def isValid_def resize_ptrs_def fcard_finsert_if
      zero_whole_double_def)

lemma rounding_prepare:
  "prepareVectorTag 0 (rounding_kernel, rounding_assembly) =
     Done (rounding_kernel\<lparr>re_blocks := [Some (ResidualBlockPtr 0 0)], local_re := [Dbl 0]\<rparr>,
           rounding_assembly)"
proof -
  have "vector_tags rounding_kernel \<noteq> {||}" by (simp add: rounding_kernel_def)
  from prepareVectorTag_Done [OF this, of 0 rounding_assembly] show ?thesis
    by (simp add: rounding_kernel_def rounding_assembly_def default_tags_sorted zero_whole_double_def)
qed

text \<open>Whole numbers below \<open>2 ^ 53\<close> in size are doubles; three roundings near \<open>10 ^ 16\<close>.\<close>

lemma ulp_small: "n < 2 ^ 53 \<Longrightarrow> ulp n = 1"
  by (simp add: ulp.simps)

lemma round_to_double_exact: "\<bar>n\<bar> < 2 ^ 53 \<Longrightarrow> round_to_double n = n"
  by (simp add: round_to_double_def Let_def ulp_small)

lemma rounding_sums:
  "round_to_double 10000000000000001 = 10000000000000000"
  "round_to_double 2 = 2"
  "round_to_double 10000000000000002 = 10000000000000002"
  by (simp_all add: round_to_double_def ulp.simps Let_def)

subsection \<open>The commit loops\<close>

text \<open>What a commit loop leaves alone, whether it returns or fails on the way.\<close>

lemma accumulate_vectors_frame:
  "sub_Ke (state_of (accumulate_vectors loc ps a)) = sub_Ke a \<and>
   (\<forall>v t. Some (ResidualBlockPtr v t) \<notin> set ps \<longrightarrow>
      sub_Re (state_of (accumulate_vectors loc ps a)) v t = sub_Re a v t)"
proof (induction loc ps a rule: accumulate_vectors.induct)
  case (3 loc p ps assembly)
  show ?case
  proof (cases "DenseVector_add (vector_at assembly p) loc")
    case (Inl e)
    then show ?thesis by simp
  next
    case (Inr w)
    obtain v0 t0 where p: "p = ResidualBlockPtr v0 t0" by (cases p)
    from 3 [OF Inr] Inr show ?thesis
      by (auto simp: p)
  qed
qed simp_all

lemma assign_vectors_frame:
  "sub_Ke (state_of (assign_vectors loc ps a)) = sub_Ke a \<and>
   (\<forall>v t. Some (ResidualBlockPtr v t) \<notin> set ps \<longrightarrow>
      sub_Re (state_of (assign_vectors loc ps a)) v t = sub_Re a v t)"
proof (induction loc ps a rule: assign_vectors.induct)
  case (3 loc p ps assembly)
  obtain v0 t0 where p: "p = ResidualBlockPtr v0 t0" by (cases p)
  from 3 show ?case
    by (auto simp: p)
qed simp_all

lemma accumulate_matrices_frame:
  "sub_Re (state_of (accumulate_matrices loc ps a)) = sub_Re a \<and>
   (\<forall>v u t. Some (JacobianBlockPtr v u t) \<notin> set ps \<longrightarrow>
      sub_Ke (state_of (accumulate_matrices loc ps a)) v u t = sub_Ke a v u t)"
proof (induction loc ps a rule: accumulate_matrices.induct)
  case (3 loc p ps assembly)
  show ?case
  proof (cases "DenseMatrix_add (matrix_at assembly p) loc")
    case (Inl e)
    then show ?thesis by simp
  next
    case (Inr w)
    obtain v0 u0 t0 where p: "p = JacobianBlockPtr v0 u0 t0" by (cases p)
    from 3 [OF Inr] Inr show ?thesis
      by (auto simp: p)
  qed
qed simp_all

lemma assign_matrices_frame:
  "sub_Re (state_of (assign_matrices loc ps a)) = sub_Re a \<and>
   (\<forall>v u t. Some (JacobianBlockPtr v u t) \<notin> set ps \<longrightarrow>
      sub_Ke (state_of (assign_matrices loc ps a)) v u t = sub_Ke a v u t)"
proof (induction loc ps a rule: assign_matrices.induct)
  case (3 loc p ps assembly)
  obtain v0 u0 t0 where p: "p = JacobianBlockPtr v0 u0 t0" by (cases p)
  from 3 show ?case
    by (auto simp: p)
qed simp_all

text \<open>What a commit loop does to the blocks of a list of distinct tags.\<close>

lemma accumulate_vectors_tags:
  assumes "distinct ts" and "\<forall>t\<in>set ts. length (sub_Re a ivar t) = length x"
  shows "\<exists>a'. accumulate_vectors x (map (\<lambda>t. Some (ResidualBlockPtr ivar t)) ts) a = Done a'
          \<and> sub_Ke a' = sub_Ke a
          \<and> (\<forall>v t. sub_Re a' v t =
                (if v = ivar \<and> t \<in> set ts then map2 (+) (sub_Re a v t) x else sub_Re a v t))"
  using assms
proof (induction ts arbitrary: a)
  case Nil
  then show ?case by simp
next
  case (Cons t ts)
  let ?a1 = "store_vector a (ResidualBlockPtr ivar t) (map2 (+) (sub_Re a ivar t) x)"
  have len: "length (sub_Re a ivar t) = length x" using Cons.prems by simp
  have step: "accumulate_vectors x (map (\<lambda>t. Some (ResidualBlockPtr ivar t)) (t # ts)) a
      = accumulate_vectors x (map (\<lambda>t. Some (ResidualBlockPtr ivar t)) ts) ?a1"
    using len by (simp add: DenseVector_add_def)
  have "\<forall>t'\<in>set ts. length (sub_Re ?a1 ivar t') = length x"
    using Cons.prems by auto
  moreover have "distinct ts" using Cons.prems by simp
  ultimately obtain a' where a': "accumulate_vectors x (map (\<lambda>t. Some (ResidualBlockPtr ivar t)) ts) ?a1 = Done a'"
     "sub_Ke a' = sub_Ke ?a1"
     "\<forall>v t'. sub_Re a' v t' =
                (if v = ivar \<and> t' \<in> set ts then map2 (+) (sub_Re ?a1 v t') x else sub_Re ?a1 v t')"
    using Cons.IH [of ?a1] by blast
  have "t \<notin> set ts" using Cons.prems by simp
  then have "\<forall>v t'. sub_Re a' v t' =
                (if v = ivar \<and> t' \<in> set (t # ts) then map2 (+) (sub_Re a v t') x else sub_Re a v t')"
    using a'(3) by auto
  with a'(1,2) step show ?case by simp
qed

lemma vector_at_store_vector:
  "vector_at (store_vector a q w) p = (if p = q then w else vector_at a p)"
  by (cases p; cases q) auto

lemma matrix_at_store_matrix:
  "matrix_at (store_matrix a q B) p = (if p = q then B else matrix_at a p)"
  by (cases p; cases q) auto

lemma assign_vectors_all:
  "None \<notin> set ps \<Longrightarrow>
   \<exists>a'. assign_vectors x ps a = Done a' \<and>
        (\<forall>p. Some p \<in> set ps \<or> vector_at a p = x \<longrightarrow> vector_at a' p = x)"
proof (induction ps arbitrary: a)
  case Nil
  then show ?case by simp
next
  case (Cons q0 ps)
  then obtain q where q: "q0 = Some q" by (cases q0) auto
  let ?a1 = "store_vector a q x"
  have "None \<notin> set ps" using Cons.prems by simp
  from Cons.IH [OF this, of ?a1] obtain a' where a': "assign_vectors x ps ?a1 = Done a'"
    "\<forall>p. Some p \<in> set ps \<or> vector_at ?a1 p = x \<longrightarrow> vector_at a' p = x"
    by blast
  have "\<forall>p. Some p \<in> set (q0 # ps) \<or> vector_at a p = x \<longrightarrow> vector_at a' p = x"
    using a'(2) by (auto simp: q vector_at_store_vector)
  with a'(1) show ?case by (simp add: q)
qed

lemma assign_matrices_all:
  "None \<notin> set ps \<Longrightarrow>
   \<exists>a'. assign_matrices X ps a = Done a' \<and>
        (\<forall>p. Some p \<in> set ps \<or> matrix_at a p = X \<longrightarrow> matrix_at a' p = X)"
proof (induction ps arbitrary: a)
  case Nil
  then show ?case by simp
next
  case (Cons q0 ps)
  then obtain q where q: "q0 = Some q" by (cases q0) auto
  let ?a1 = "store_matrix a q X"
  have "None \<notin> set ps" using Cons.prems by simp
  from Cons.IH [OF this, of ?a1] obtain a' where a': "assign_matrices X ps ?a1 = Done a'"
    "\<forall>p. Some p \<in> set ps \<or> matrix_at ?a1 p = X \<longrightarrow> matrix_at a' p = X"
    by blast
  have "\<forall>p. Some p \<in> set (q0 # ps) \<or> matrix_at a p = X \<longrightarrow> matrix_at a' p = X"
    using a'(2) by (auto simp: q matrix_at_store_matrix)
  with a'(1) show ?case by (simp add: q)
qed

lemma same_shape_add_vals: "same_shape A X \<Longrightarrow> same_shape (add_vals A X) X"
  by (simp add: same_shape_def add_vals_def)

lemma accumulate_matrices_tags:
  assumes "distinct ts" and "\<forall>t\<in>set ts. same_shape (sub_Ke a ivar jvar t) X"
  shows "\<exists>a'. accumulate_matrices X (map (\<lambda>t. Some (JacobianBlockPtr ivar jvar t)) ts) a = Done a'
          \<and> sub_Re a' = sub_Re a
          \<and> (\<forall>v u t. sub_Ke a' v u t =
                (if v = ivar \<and> u = jvar \<and> t \<in> set ts then add_vals (sub_Ke a v u t) X
                 else sub_Ke a v u t))"
  using assms
proof (induction ts arbitrary: a)
  case Nil
  then show ?case by simp
next
  case (Cons t ts)
  let ?f = "\<lambda>t. Some (JacobianBlockPtr ivar jvar t)"
  let ?a1 = "store_matrix a (JacobianBlockPtr ivar jvar t) (add_vals (sub_Ke a ivar jvar t) X)"
  have sh: "same_shape (sub_Ke a ivar jvar t) X" using Cons.prems by simp
  have step: "accumulate_matrices X (map ?f (t # ts)) a = accumulate_matrices X (map ?f ts) ?a1"
    using sh by (simp add: DenseMatrix_add_def add_vals_def)
  have "\<forall>t'\<in>set ts. same_shape (sub_Ke ?a1 ivar jvar t') X"
    using Cons.prems by auto
  moreover have "distinct ts" using Cons.prems by simp
  ultimately obtain a' where a': "accumulate_matrices X (map ?f ts) ?a1 = Done a'"
     "sub_Re a' = sub_Re ?a1"
     "\<forall>v u t'. sub_Ke a' v u t' =
        (if v = ivar \<and> u = jvar \<and> t' \<in> set ts then add_vals (sub_Ke ?a1 v u t') X
         else sub_Ke ?a1 v u t')"
    using Cons.IH [of ?a1] by blast
  have "t \<notin> set ts" using Cons.prems by simp
  then have "\<forall>v u t'. sub_Ke a' v u t' =
        (if v = ivar \<and> u = jvar \<and> t' \<in> set (t # ts) then add_vals (sub_Ke a v u t') X
         else sub_Ke a v u t')"
    using a'(3) by auto
  with a'(1,2) step show ?case by simp
qed

lemma state_of_with_object: "state_of (with_object ti out) = (ti, state_of out)"
  by (cases out) simp_all

text \<open>
  Where addition is associative and \<open>2 * e = e + e\<close>, adding \<open>x\<close> twice is adding \<open>2x\<close>
  once.
\<close>

lemma add_twice_is_add_double:
  fixes v x :: "('a::semiring_numeral) list"
  shows "map2 (+) (map2 (+) v x) x = map2 (+) v (map (\<lambda>e. 2 * e) x)"
proof (induction v arbitrary: x)
  case Nil
  then show ?case by simp
next
  case (Cons a v)
  then show ?case by (cases x) (simp_all add: mult_2 add.assoc)
qed

section \<open>The claims\<close>

subsection \<open>Commit: accumulate and assign\<close>

text \<open>
  C1, amended. Take a kernel with at least one active vector tag whose residual blocks for
  the variable all have the size of \<open>x\<close> (the blocks of one prepare call are
  shape-compatible, and \<open>x\<close> fills the local residual that the call has sized). Then
  \<open>prepareVectorTag\<close> returns, and after the local residual is filled with \<open>x\<close> two calls of
  \<open>accumulateTaggedLocalResidual\<close> both return and leave every bound block equal to its
  value before the calls with \<open>x\<close> added and then \<open>x\<close> added again, entry by entry: each
  call adds the local residual once. The same holds for \<open>prepareMatrixTag\<close>, the local
  Jacobian filled with \<open>X\<close> and \<open>accumulateTaggedLocalMatrix\<close> on every bound matrix block.
  Nothing is assumed of the addition of the entries, so this holds of doubles too. Where
  the addition is associative and \<open>2 * e = e + e\<close> the result is the earlier value plus \<open>2x\<close>
  (\<open>add_twice_is_add_double\<close>).
\<close>

theorem accumulate_twice_adds_twice:
  fixes ti :: "('a::{zero,plus}) TaggingInterface"
  shows
  "(vector_tags ti \<noteq> {||} \<and>
    (\<forall>t. t |\<in>| vector_tags ti \<longrightarrow> length (sub_Re assembly ivar t) = length x) \<longrightarrow>
      (\<exists>ti1 a1 a2.
         prepareVectorTag ivar (ti, assembly) = Done (ti1, assembly) \<and>
         length (local_re ti1) = length x \<and>
         accumulateTaggedLocalResidual (ti1\<lparr>local_re := x\<rparr>, assembly) = Done (ti1\<lparr>local_re := x\<rparr>, a1) \<and>
         accumulateTaggedLocalResidual (ti1\<lparr>local_re := x\<rparr>, a1) = Done (ti1\<lparr>local_re := x\<rparr>, a2) \<and>
         (\<forall>p. Some p \<in> set (re_blocks ti1) \<longrightarrow>
            vector_at a2 p = map2 (+) (map2 (+) (vector_at assembly p) x) x))) \<and>
   (matrix_tags ti \<noteq> {||} \<and>
    (\<forall>t. t |\<in>| matrix_tags ti \<longrightarrow> same_shape (sub_Ke assembly ivar jvar t) X) \<longrightarrow>
      (\<exists>ti1 a1 a2.
         prepareMatrixTag ivar jvar (ti, assembly) = Done (ti1, assembly) \<and>
         accumulateTaggedLocalMatrix (ti1\<lparr>local_ke := X\<rparr>, assembly) = Done (ti1\<lparr>local_ke := X\<rparr>, a1) \<and>
         accumulateTaggedLocalMatrix (ti1\<lparr>local_ke := X\<rparr>, a1) = Done (ti1\<lparr>local_ke := X\<rparr>, a2) \<and>
         (\<forall>p. Some p \<in> set (ke_blocks ti1) \<longrightarrow>
            matrix_at a2 p = (matrix_at assembly p)
              \<lparr>dm_val := map2 (+) (map2 (+) (dm_val (matrix_at assembly p)) (dm_val X)) (dm_val X)\<rparr>)))"
proof (intro conjI impI)
  assume H: "vector_tags ti \<noteq> {||} \<and>
    (\<forall>t. t |\<in>| vector_tags ti \<longrightarrow> length (sub_Re assembly ivar t) = length x)"
  let ?ts = "sorted_list_of_fset (vector_tags ti)"
  let ?f = "\<lambda>t. Some (ResidualBlockPtr ivar t)"
  let ?ti1 = "ti\<lparr>re_blocks := map ?f ?ts,
                 local_re := replicate (length (sub_Re assembly ivar (hd ?ts))) 0\<rparr>"
  have prep: "prepareVectorTag ivar (ti, assembly) = Done (?ti1, assembly)"
    using H by (simp add: prepareVectorTag_Done)
  have "?ts \<noteq> []" using H by (simp add: sorted_list_of_fset_nonempty)
  then have "hd ?ts \<in> set ?ts" by (rule hd_in_set)
  then have "hd ?ts |\<in>| vector_tags ti" by simp
  then have len1: "length (local_re ?ti1) = length x" using H by simp
  have d: "distinct ?ts" by (rule distinct_sorted_list_of_fset)
  have s0: "\<forall>t\<in>set ?ts. length (sub_Re assembly ivar t) = length x" using H by simp
  from accumulate_vectors_tags [OF d s0] obtain a1 where a1:
    "accumulate_vectors x (map ?f ?ts) assembly = Done a1"
    "\<forall>v t. sub_Re a1 v t =
       (if v = ivar \<and> t \<in> set ?ts then map2 (+) (sub_Re assembly v t) x else sub_Re assembly v t)"
    by blast
  have s1: "\<forall>t\<in>set ?ts. length (sub_Re a1 ivar t) = length x"
    using s0 a1(2) by simp
  from accumulate_vectors_tags [OF d s1] obtain a2 where a2:
    "accumulate_vectors x (map ?f ?ts) a1 = Done a2"
    "\<forall>v t. sub_Re a2 v t =
       (if v = ivar \<and> t \<in> set ?ts then map2 (+) (sub_Re a1 v t) x else sub_Re a1 v t)"
    by blast
  have r1: "accumulateTaggedLocalResidual (?ti1\<lparr>local_re := x\<rparr>, assembly) = Done (?ti1\<lparr>local_re := x\<rparr>, a1)"
    using a1(1) by (simp add: accumulateTaggedLocalResidual_def)
  have r2: "accumulateTaggedLocalResidual (?ti1\<lparr>local_re := x\<rparr>, a1) = Done (?ti1\<lparr>local_re := x\<rparr>, a2)"
    using a2(1) by (simp add: accumulateTaggedLocalResidual_def)
  have fin: "\<forall>p. Some p \<in> set (re_blocks ?ti1) \<longrightarrow>
            vector_at a2 p = map2 (+) (map2 (+) (vector_at assembly p) x) x"
    using a1(2) a2(2) by auto
  show "\<exists>ti1 a1 a2.
         prepareVectorTag ivar (ti, assembly) = Done (ti1, assembly) \<and>
         length (local_re ti1) = length x \<and>
         accumulateTaggedLocalResidual (ti1\<lparr>local_re := x\<rparr>, assembly) = Done (ti1\<lparr>local_re := x\<rparr>, a1) \<and>
         accumulateTaggedLocalResidual (ti1\<lparr>local_re := x\<rparr>, a1) = Done (ti1\<lparr>local_re := x\<rparr>, a2) \<and>
         (\<forall>p. Some p \<in> set (re_blocks ti1) \<longrightarrow>
            vector_at a2 p = map2 (+) (map2 (+) (vector_at assembly p) x) x)"
    using prep len1 r1 r2 fin by blast
next
  assume H: "matrix_tags ti \<noteq> {||} \<and>
    (\<forall>t. t |\<in>| matrix_tags ti \<longrightarrow> same_shape (sub_Ke assembly ivar jvar t) X)"
  let ?ts = "sorted_list_of_fset (matrix_tags ti)"
  let ?f = "\<lambda>t. Some (JacobianBlockPtr ivar jvar t)"
  obtain ti1 where prep: "prepareMatrixTag ivar jvar (ti, assembly) = Done (ti1, assembly)"
    and blocks: "ke_blocks ti1 = map ?f ?ts"
    using H prepareMatrixTag_Done [of ti ivar jvar assembly] by simp
  have d: "distinct ?ts" by (rule distinct_sorted_list_of_fset)
  have s0: "\<forall>t\<in>set ?ts. same_shape (sub_Ke assembly ivar jvar t) X" using H by simp
  from accumulate_matrices_tags [OF d s0] obtain a1 where a1:
    "accumulate_matrices X (map ?f ?ts) assembly = Done a1"
    "\<forall>v u t. sub_Ke a1 v u t =
       (if v = ivar \<and> u = jvar \<and> t \<in> set ?ts then add_vals (sub_Ke assembly v u t) X
        else sub_Ke assembly v u t)"
    by blast
  have s1: "\<forall>t\<in>set ?ts. same_shape (sub_Ke a1 ivar jvar t) X"
    using s0 a1(2) by (simp add: same_shape_add_vals)
  from accumulate_matrices_tags [OF d s1] obtain a2 where a2:
    "accumulate_matrices X (map ?f ?ts) a1 = Done a2"
    "\<forall>v u t. sub_Ke a2 v u t =
       (if v = ivar \<and> u = jvar \<and> t \<in> set ?ts then add_vals (sub_Ke a1 v u t) X
        else sub_Ke a1 v u t)"
    by blast
  have r1: "accumulateTaggedLocalMatrix (ti1\<lparr>local_ke := X\<rparr>, assembly) = Done (ti1\<lparr>local_ke := X\<rparr>, a1)"
    using a1(1) blocks by (simp add: accumulateTaggedLocalMatrix_def)
  have r2: "accumulateTaggedLocalMatrix (ti1\<lparr>local_ke := X\<rparr>, a1) = Done (ti1\<lparr>local_ke := X\<rparr>, a2)"
    using a2(1) blocks by (simp add: accumulateTaggedLocalMatrix_def)
  have fin: "\<forall>p. Some p \<in> set (ke_blocks ti1) \<longrightarrow>
            matrix_at a2 p = (matrix_at assembly p)
              \<lparr>dm_val := map2 (+) (map2 (+) (dm_val (matrix_at assembly p)) (dm_val X)) (dm_val X)\<rparr>"
    using a1(2) a2(2) blocks by (auto simp: add_vals_def)
  show "\<exists>ti1 a1 a2.
         prepareMatrixTag ivar jvar (ti, assembly) = Done (ti1, assembly) \<and>
         accumulateTaggedLocalMatrix (ti1\<lparr>local_ke := X\<rparr>, assembly) = Done (ti1\<lparr>local_ke := X\<rparr>, a1) \<and>
         accumulateTaggedLocalMatrix (ti1\<lparr>local_ke := X\<rparr>, a1) = Done (ti1\<lparr>local_ke := X\<rparr>, a2) \<and>
         (\<forall>p. Some p \<in> set (ke_blocks ti1) \<longrightarrow>
            matrix_at a2 p = (matrix_at assembly p)
              \<lparr>dm_val := map2 (+) (map2 (+) (dm_val (matrix_at assembly p)) (dm_val X)) (dm_val X)\<rparr>)"
    using prep r1 r2 fin by blast
qed

text \<open>
  C1 as stated fails: with doubles the block does not end as its earlier value plus \<open>2x\<close>.
  The default kernel is constructed and prepared for variable 0; its residual block holds
  the double \<open>10 ^ 16\<close> and the local residual is filled with 1. Doubles of this size are 2
  apart, so each accumulation rounds \<open>10 ^ 16 + 1\<close> back to \<open>10 ^ 16\<close>, and after two calls
  the block still holds \<open>10 ^ 16\<close>; \<open>2x\<close> is the double 2, and the earlier value plus \<open>2x\<close> is
  the double \<open>10 ^ 16 + 2\<close>.
\<close>

theorem accumulate_twice_rounds_twice:
  "TaggingInterface_ctor example_registry default_object = Inr rounding_kernel \<and>
   prepareVectorTag 0 (rounding_kernel, rounding_assembly) =
     Done (rounding_kernel\<lparr>re_blocks := [Some (ResidualBlockPtr 0 0)], local_re := [Dbl 0]\<rparr>,
           rounding_assembly) \<and>
   sub_Re rounding_assembly 0 0 = [Dbl 10000000000000000] \<and>
   is_Done (accumulateTaggedLocalResidual
     (rounding_kernel\<lparr>re_blocks := [Some (ResidualBlockPtr 0 0)], local_re := [Dbl 1]\<rparr>,
      rounding_assembly)) \<and>
   is_Done (accumulateTaggedLocalResidual (state_of (accumulateTaggedLocalResidual
     (rounding_kernel\<lparr>re_blocks := [Some (ResidualBlockPtr 0 0)], local_re := [Dbl 1]\<rparr>,
      rounding_assembly)))) \<and>
   sub_Re (snd (state_of (accumulateTaggedLocalResidual (state_of (accumulateTaggedLocalResidual
     (rounding_kernel\<lparr>re_blocks := [Some (ResidualBlockPtr 0 0)], local_re := [Dbl 1]\<rparr>,
      rounding_assembly)))))) 0 0 = [Dbl 10000000000000000] \<and>
   map2 (+) [Dbl 1] [Dbl 1] = [Dbl 2] \<and>
   map2 (+) (sub_Re rounding_assembly 0 0) [Dbl 2] = [Dbl 10000000000000002]"
  by (simp add: ctor_rounding rounding_prepare rounding_sums accumulateTaggedLocalResidual_def
      DenseVector_add_def)
     (simp add: rounding_kernel_def rounding_assembly_def rounding_sums DenseVector_add_def)

text \<open>
  The kernel \<open>diff\<close>: its two residual blocks for variable 0 hold (1, 2) and (10, 20);
  after two accumulations of (5, 5) they hold (11, 12) and (20, 30). Its two Jacobian blocks
  for (0, 0) hold (3, 4) and (30, 40), and afterwards (13, 14) and (40, 50).
\<close>

theorem accumulate_twice_adds_twice_witness:
  "(\<exists>ti1 a1 a2.
      prepareVectorTag 0 (example_kernel, example_assembly) = Done (ti1, example_assembly) \<and>
      accumulateTaggedLocalResidual (ti1\<lparr>local_re := [5, 5]\<rparr>, example_assembly) =
        Done (ti1\<lparr>local_re := [5, 5]\<rparr>, a1) \<and>
      accumulateTaggedLocalResidual (ti1\<lparr>local_re := [5, 5]\<rparr>, a1) =
        Done (ti1\<lparr>local_re := [5, 5]\<rparr>, a2) \<and>
      sub_Re a2 0 0 = [11, 12] \<and> sub_Re a2 0 1 = [20, 30]) \<and>
   (\<exists>ti1 a1 a2.
      prepareMatrixTag 0 0 (example_kernel, example_assembly) = Done (ti1, example_assembly) \<and>
      accumulateTaggedLocalMatrix (ti1\<lparr>local_ke := example_local_ke\<rparr>, example_assembly) =
        Done (ti1\<lparr>local_ke := example_local_ke\<rparr>, a1) \<and>
      accumulateTaggedLocalMatrix (ti1\<lparr>local_ke := example_local_ke\<rparr>, a1) =
        Done (ti1\<lparr>local_ke := example_local_ke\<rparr>, a2) \<and>
      sub_Ke a2 0 0 0 = \<lparr>dm_m = 1, dm_n = 2, dm_val = [13, 14]\<rparr> \<and>
      sub_Ke a2 0 0 1 = \<lparr>dm_m = 1, dm_n = 2, dm_val = [40, 50]\<rparr>)"
proof -
  let ?X = "example_local_ke"
  have hv: "vector_tags example_kernel \<noteq> {||} \<and>
    (\<forall>t. t |\<in>| vector_tags example_kernel \<longrightarrow>
       length (sub_Re example_assembly 0 t) = length [5, 5::real])"
    by (simp add: example_kernel_def example_assembly_def)
  have hm: "matrix_tags example_kernel \<noteq> {||} \<and>
    (\<forall>t. t |\<in>| matrix_tags example_kernel \<longrightarrow> same_shape (sub_Ke example_assembly 0 0 t) ?X)"
    by (simp add: example_kernel_def example_assembly_def same_shape_def example_local_ke_def)
  from accumulate_twice_adds_twice [where ti = example_kernel and assembly = example_assembly
      and ivar = 0 and x = "[5, 5]" and jvar = 0 and X = ?X] hv hm
  obtain t1 a1 a2 t2 b1 b2 where
    v: "prepareVectorTag 0 (example_kernel, example_assembly) = Done (t1, example_assembly)"
       "accumulateTaggedLocalResidual (t1\<lparr>local_re := [5, 5]\<rparr>, example_assembly) =
          Done (t1\<lparr>local_re := [5, 5]\<rparr>, a1)"
       "accumulateTaggedLocalResidual (t1\<lparr>local_re := [5, 5]\<rparr>, a1) =
          Done (t1\<lparr>local_re := [5, 5]\<rparr>, a2)"
       "\<forall>p. Some p \<in> set (re_blocks t1) \<longrightarrow>
            vector_at a2 p = map2 (+) (map2 (+) (vector_at example_assembly p) [5, 5]) [5, 5]" and
    m: "prepareMatrixTag 0 0 (example_kernel, example_assembly) = Done (t2, example_assembly)"
       "accumulateTaggedLocalMatrix (t2\<lparr>local_ke := ?X\<rparr>, example_assembly) =
          Done (t2\<lparr>local_ke := ?X\<rparr>, b1)"
       "accumulateTaggedLocalMatrix (t2\<lparr>local_ke := ?X\<rparr>, b1) = Done (t2\<lparr>local_ke := ?X\<rparr>, b2)"
       "\<forall>p. Some p \<in> set (ke_blocks t2) \<longrightarrow>
            matrix_at b2 p = (matrix_at example_assembly p)
              \<lparr>dm_val := map2 (+) (map2 (+) (dm_val (matrix_at example_assembly p)) (dm_val ?X))
                           (dm_val ?X)\<rparr>"
    by blast
  from v(1) have "re_blocks t1 = [Some (ResidualBlockPtr 0 0), Some (ResidualBlockPtr 0 1)]"
    by (auto simp: example_prepareVectorTag)
  with v(4) have
    "vector_at a2 (ResidualBlockPtr 0 0) =
       map2 (+) (map2 (+) (vector_at example_assembly (ResidualBlockPtr 0 0)) [5, 5]) [5, 5]"
    "vector_at a2 (ResidualBlockPtr 0 1) =
       map2 (+) (map2 (+) (vector_at example_assembly (ResidualBlockPtr 0 1)) [5, 5]) [5, 5]"
    by simp_all
  then have rv: "sub_Re a2 0 0 = [11, 12] \<and> sub_Re a2 0 1 = [20, 30]"
    by (simp add: example_assembly_def)
  from m(1) have "ke_blocks t2 = [Some (JacobianBlockPtr 0 0 0), Some (JacobianBlockPtr 0 0 1)]"
    by (auto simp: example_prepareMatrixTag)
  with m(4) have
    "matrix_at b2 (JacobianBlockPtr 0 0 0) = (matrix_at example_assembly (JacobianBlockPtr 0 0 0))
       \<lparr>dm_val := map2 (+) (map2 (+) (dm_val (matrix_at example_assembly (JacobianBlockPtr 0 0 0)))
                    (dm_val ?X)) (dm_val ?X)\<rparr>"
    "matrix_at b2 (JacobianBlockPtr 0 0 1) = (matrix_at example_assembly (JacobianBlockPtr 0 0 1))
       \<lparr>dm_val := map2 (+) (map2 (+) (dm_val (matrix_at example_assembly (JacobianBlockPtr 0 0 1)))
                    (dm_val ?X)) (dm_val ?X)\<rparr>"
    by simp_all
  then have rm: "sub_Ke b2 0 0 0 = \<lparr>dm_m = 1, dm_n = 2, dm_val = [13, 14]\<rparr> \<and>
      sub_Ke b2 0 0 1 = \<lparr>dm_m = 1, dm_n = 2, dm_val = [40, 50]\<rparr>"
    by (simp add: example_assembly_def example_local_ke_def)
  from v(1,2,3) rv m(1,2,3) rm show ?thesis by blast
qed

text \<open>
  C2. Whenever every entry of the vector pointer array is bound, filling the local
  residual with \<open>x\<close> and calling \<open>assignTaggedLocalResidual\<close> returns and leaves every bound
  block equal to \<open>x\<close>, whatever the assembly held before. The same holds for the matrix
  pointer array, the local Jacobian filled with \<open>X\<close> and \<open>assignTaggedLocalMatrix\<close>.
\<close>

theorem assign_overwrites_bound_blocks:
  "(None \<notin> set (re_blocks ti) \<longrightarrow>
      (\<exists>a1. assignTaggedLocalResidual (ti\<lparr>local_re := x\<rparr>, assembly) = Done (ti\<lparr>local_re := x\<rparr>, a1) \<and>
         (\<forall>p. Some p \<in> set (re_blocks ti) \<longrightarrow> vector_at a1 p = x))) \<and>
   (None \<notin> set (ke_blocks ti) \<longrightarrow>
      (\<exists>a1. assignTaggedLocalMatrix (ti\<lparr>local_ke := X\<rparr>, assembly) = Done (ti\<lparr>local_ke := X\<rparr>, a1) \<and>
         (\<forall>p. Some p \<in> set (ke_blocks ti) \<longrightarrow> matrix_at a1 p = X)))"
proof (intro conjI impI)
  assume "None \<notin> set (re_blocks ti)"
  from assign_vectors_all [OF this, of x assembly]
  show "\<exists>a1. assignTaggedLocalResidual (ti\<lparr>local_re := x\<rparr>, assembly) = Done (ti\<lparr>local_re := x\<rparr>, a1) \<and>
         (\<forall>p. Some p \<in> set (re_blocks ti) \<longrightarrow> vector_at a1 p = x)"
    by (auto simp: assignTaggedLocalResidual_def)
next
  assume "None \<notin> set (ke_blocks ti)"
  from assign_matrices_all [OF this, of X assembly]
  show "\<exists>a1. assignTaggedLocalMatrix (ti\<lparr>local_ke := X\<rparr>, assembly) = Done (ti\<lparr>local_ke := X\<rparr>, a1) \<and>
         (\<forall>p. Some p \<in> set (ke_blocks ti) \<longrightarrow> matrix_at a1 p = X)"
    by (auto simp: assignTaggedLocalMatrix_def)
qed

text \<open>
  The kernel \<open>diff\<close> after both prepare calls: assigning (5, 5) leaves (5, 5) in both
  residual blocks and in both Jacobian blocks.
\<close>

theorem assign_overwrites_bound_blocks_witness:
  "\<exists>ti1 a1 b1.
      prepareVectorTag 0 (example_kernel, example_assembly) = Done (ti1, example_assembly) \<and>
      prepareMatrixTag 0 0 (ti1, example_assembly) = Done (example_prepared_kernel, example_assembly) \<and>
      None \<notin> set (re_blocks example_prepared_kernel) \<and>
      None \<notin> set (ke_blocks example_prepared_kernel) \<and>
      assignTaggedLocalResidual (example_prepared_kernel\<lparr>local_re := [5, 5]\<rparr>, example_assembly) =
        Done (example_prepared_kernel\<lparr>local_re := [5, 5]\<rparr>, a1) \<and>
      sub_Re a1 0 0 = [5, 5] \<and> sub_Re a1 0 1 = [5, 5] \<and>
      assignTaggedLocalMatrix (example_prepared_kernel\<lparr>local_ke := example_local_ke\<rparr>, example_assembly) =
        Done (example_prepared_kernel\<lparr>local_ke := example_local_ke\<rparr>, b1) \<and>
      sub_Ke b1 0 0 0 = example_local_ke \<and> sub_Ke b1 0 0 1 = example_local_ke"
proof -
  let ?X = "example_local_ke"
  let ?t2 = "example_prepared_kernel"
  have hv: "None \<notin> set (re_blocks ?t2)" and hm: "None \<notin> set (ke_blocks ?t2)"
    by (simp_all add: example_prepared_kernel_def)
  from assign_overwrites_bound_blocks [where ti = ?t2 and x = "[5, 5]"
      and assembly = example_assembly and X = ?X] hv hm
  obtain a1 b1 where
    v: "assignTaggedLocalResidual (?t2\<lparr>local_re := [5, 5]\<rparr>, example_assembly) =
          Done (?t2\<lparr>local_re := [5, 5]\<rparr>, a1)"
       "\<forall>p. Some p \<in> set (re_blocks ?t2) \<longrightarrow> vector_at a1 p = [5, 5]" and
    m: "assignTaggedLocalMatrix (?t2\<lparr>local_ke := ?X\<rparr>, example_assembly) =
          Done (?t2\<lparr>local_ke := ?X\<rparr>, b1)"
       "\<forall>p. Some p \<in> set (ke_blocks ?t2) \<longrightarrow> matrix_at b1 p = ?X"
    by blast
  from v(2) have "vector_at a1 (ResidualBlockPtr 0 0) = [5, 5]"
    and "vector_at a1 (ResidualBlockPtr 0 1) = [5, 5]"
    by (simp_all add: example_prepared_kernel_def)
  then have rv: "sub_Re a1 0 0 = [5, 5]" "sub_Re a1 0 1 = [5, 5]" by simp_all
  from m(2) have "matrix_at b1 (JacobianBlockPtr 0 0 0) = ?X"
    and "matrix_at b1 (JacobianBlockPtr 0 0 1) = ?X"
    by (simp_all add: example_prepared_kernel_def)
  then have rm: "sub_Ke b1 0 0 0 = ?X" "sub_Ke b1 0 0 1 = ?X" by simp_all
  from example_prepareVectorTag example_prepare_both hv hm v(1) rv m(1) rm
  show ?thesis by blast
qed

text \<open>
  C9. The four commit functions return no value, only the state they leave. Whether a
  call returns or stops on the way, the object is as it was (the local buffers, the two tag
  sets and the two pointer arrays), the residual commits leave every matrix block and
  the Jacobian commits every vector block as it was, and a block that no entry of the
  pointer array points to is as it was.
\<close>

theorem commit_changes_bound_blocks_only:
  "fst (state_of (accumulateTaggedLocalResidual s)) = fst s \<and>
   fst (state_of (assignTaggedLocalResidual s)) = fst s \<and>
   fst (state_of (accumulateTaggedLocalMatrix s)) = fst s \<and>
   fst (state_of (assignTaggedLocalMatrix s)) = fst s \<and>
   sub_Ke (snd (state_of (accumulateTaggedLocalResidual s))) = sub_Ke (snd s) \<and>
   sub_Ke (snd (state_of (assignTaggedLocalResidual s))) = sub_Ke (snd s) \<and>
   sub_Re (snd (state_of (accumulateTaggedLocalMatrix s))) = sub_Re (snd s) \<and>
   sub_Re (snd (state_of (assignTaggedLocalMatrix s))) = sub_Re (snd s) \<and>
   (Some (ResidualBlockPtr ivar tag) \<notin> set (re_blocks (fst s)) \<longrightarrow>
      sub_Re (snd (state_of (accumulateTaggedLocalResidual s))) ivar tag = sub_Re (snd s) ivar tag \<and>
      sub_Re (snd (state_of (assignTaggedLocalResidual s))) ivar tag = sub_Re (snd s) ivar tag) \<and>
   (Some (JacobianBlockPtr ivar jvar tag) \<notin> set (ke_blocks (fst s)) \<longrightarrow>
      sub_Ke (snd (state_of (accumulateTaggedLocalMatrix s))) ivar jvar tag = sub_Ke (snd s) ivar jvar tag \<and>
      sub_Ke (snd (state_of (assignTaggedLocalMatrix s))) ivar jvar tag = sub_Ke (snd s) ivar jvar tag)"
  using accumulate_vectors_frame [of "local_re (fst s)" "re_blocks (fst s)" "snd s"]
    assign_vectors_frame [of "local_re (fst s)" "re_blocks (fst s)" "snd s"]
    accumulate_matrices_frame [of "local_ke (fst s)" "ke_blocks (fst s)" "snd s"]
    assign_matrices_frame [of "local_ke (fst s)" "ke_blocks (fst s)" "snd s"]
  by (simp add: accumulateTaggedLocalResidual_def assignTaggedLocalResidual_def
      accumulateTaggedLocalMatrix_def assignTaggedLocalMatrix_def state_of_with_object)

text \<open>
  The prepared kernel \<open>diff\<close> with its buffers filled: the commits leave the object as it
  is, and the blocks of variable 1, which are not bound, keep (1, 2) and (3, 4).
\<close>

theorem commit_changes_bound_blocks_only_witness:
  "fst (state_of (accumulateTaggedLocalResidual
      (example_prepared_kernel\<lparr>local_re := [5, 5], local_ke := example_local_ke\<rparr>, example_assembly))) =
     example_prepared_kernel\<lparr>local_re := [5, 5], local_ke := example_local_ke\<rparr> \<and>
   sub_Re (snd (state_of (accumulateTaggedLocalResidual
      (example_prepared_kernel\<lparr>local_re := [5, 5], local_ke := example_local_ke\<rparr>, example_assembly)))) 1 0 =
     [1, 2] \<and>
   sub_Re (snd (state_of (assignTaggedLocalResidual
      (example_prepared_kernel\<lparr>local_re := [5, 5], local_ke := example_local_ke\<rparr>, example_assembly)))) 1 0 =
     [1, 2] \<and>
   sub_Ke (snd (state_of (accumulateTaggedLocalMatrix
      (example_prepared_kernel\<lparr>local_re := [5, 5], local_ke := example_local_ke\<rparr>, example_assembly)))) 1 0 0 =
     \<lparr>dm_m = 1, dm_n = 2, dm_val = [3, 4]\<rparr> \<and>
   sub_Ke (snd (state_of (assignTaggedLocalMatrix
      (example_prepared_kernel\<lparr>local_re := [5, 5], local_ke := example_local_ke\<rparr>, example_assembly)))) 1 0 0 =
     \<lparr>dm_m = 1, dm_n = 2, dm_val = [3, 4]\<rparr>"
proof -
  let ?s = "(example_prepared_kernel\<lparr>local_re := [5, 5], local_ke := example_local_ke\<rparr>, example_assembly)"
  have hv: "Some (ResidualBlockPtr 1 0) \<notin> set (re_blocks (fst ?s))"
    and hm: "Some (JacobianBlockPtr 1 0 0) \<notin> set (ke_blocks (fst ?s))"
    by (simp_all add: example_prepared_kernel_def)
  have a: "sub_Re (snd ?s) 1 0 = [1, 2]" "sub_Ke (snd ?s) 1 0 0 = \<lparr>dm_m = 1, dm_n = 2, dm_val = [3, 4]\<rparr>"
    by (simp_all add: example_assembly_def)
  from commit_changes_bound_blocks_only [where s = ?s and ivar = 1 and tag = 0 and jvar = 0] hv hm a
  show ?thesis by simp
qed

subsection \<open>Prepare\<close>



subsection \<open>Construction\<close>

text \<open>
  C4, amended. When the \<open>vector_tags\<close> and the \<open>matrix_tags\<close> selections are both
  non-empty and every configured name resolves in the registry (the selected names as well
  as the extra names), construction succeeds, and each active tag set holds exactly the ids
  that the configured names of its namespace resolve to; names that resolve to the same
  id give one element.
\<close>

theorem ctor_active_sets_are_resolved_ids:
  "isValid (param_vector_tags (parameters obj)) \<and>
   isValid (param_matrix_tags (parameters obj)) \<and>
   (\<forall>n \<in> set (param_vector_tags (parameters obj) @ param_extra_vector_tags (parameters obj)).
      \<exists>i. getVectorTagID sp n = Inr i) \<and>
   (\<forall>n \<in> set (param_matrix_tags (parameters obj) @ param_extra_matrix_tags (parameters obj)).
      \<exists>i. getMatrixTagID sp n = Inr i) \<longrightarrow>
   (\<exists>ti. (TaggingInterface_ctor sp obj :: error + ('a::zero) TaggingInterface) = Inr ti \<and>
      fset (vector_tags ti) =
        {i. \<exists>n \<in> set (param_vector_tags (parameters obj) @ param_extra_vector_tags (parameters obj)).
              getVectorTagID sp n = Inr i} \<and>
      fset (matrix_tags ti) =
        {i. \<exists>n \<in> set (param_matrix_tags (parameters obj) @ param_extra_matrix_tags (parameters obj)).
              getMatrixTagID sp n = Inr i} \<and>
      distinct (sorted_list_of_fset (vector_tags ti)) \<and>
      distinct (sorted_list_of_fset (matrix_tags ti)))"
proof
  let ?vs = "param_vector_tags (parameters obj)" and ?ves = "param_extra_vector_tags (parameters obj)"
  let ?ms = "param_matrix_tags (parameters obj)" and ?mes = "param_extra_matrix_tags (parameters obj)"
  assume H: "isValid ?vs \<and> isValid ?ms \<and>
   (\<forall>n \<in> set (?vs @ ?ves). \<exists>i. getVectorTagID sp n = Inr i) \<and>
   (\<forall>n \<in> set (?ms @ ?mes). \<exists>i. getMatrixTagID sp n = Inr i)"
  have v1: "\<forall>n\<in>set ?vs. \<exists>i. getVectorTagID sp n = Inr i"
    and v2: "\<forall>n\<in>set ?ves. \<exists>i. getVectorTagID sp n = Inr i"
    and m1: "\<forall>n\<in>set ?ms. \<exists>i. getMatrixTagID sp n = Inr i"
    and m2: "\<forall>n\<in>set ?mes. \<exists>i. getMatrixTagID sp n = Inr i"
    using H by auto
  from insert_tag_ids_resolved [OF v1, of "{||}"] obtain vt0 where
    vt0: "insert_tag_ids (getVectorTagID sp) ?vs {||} = Inr vt0"
         "fset vt0 = {i. \<exists>n\<in>set ?vs. getVectorTagID sp n = Inr i}"
    by auto
  from insert_tag_ids_resolved [OF v2, of vt0] obtain vt where
    vt: "insert_tag_ids (getVectorTagID sp) ?ves vt0 = Inr vt"
        "fset vt = fset vt0 \<union> {i. \<exists>n\<in>set ?ves. getVectorTagID sp n = Inr i}"
    by auto
  from insert_tag_ids_resolved [OF m1, of "{||}"] obtain mt0 where
    mt0: "insert_tag_ids (getMatrixTagID sp) ?ms {||} = Inr mt0"
         "fset mt0 = {i. \<exists>n\<in>set ?ms. getMatrixTagID sp n = Inr i}"
    by auto
  from insert_tag_ids_resolved [OF m2, of mt0] obtain mt where
    mt: "insert_tag_ids (getMatrixTagID sp) ?mes mt0 = Inr mt"
        "fset mt = fset mt0 \<union> {i. \<exists>n\<in>set ?mes. getMatrixTagID sp n = Inr i}"
    by auto
  have c: "(TaggingInterface_ctor sp obj :: error + 'a TaggingInterface) =
      Inr \<lparr>moose_object = obj, vector_tags = vt, matrix_tags = mt,
           re_blocks = resize_ptrs (fcard vt) [], ke_blocks = resize_ptrs (fcard mt) [],
           local_re = [], local_ke = \<lparr>dm_m = 0, dm_n = 0, dm_val = []\<rparr>\<rparr>"
    using H vt0(1) vt(1) mt0(1) mt(1) by (simp add: TaggingInterface_ctor_def)
  have sv: "fset vt = {i. \<exists>n \<in> set (?vs @ ?ves). getVectorTagID sp n = Inr i}"
    using vt0(2) vt(2) by auto
  have sm: "fset mt = {i. \<exists>n \<in> set (?ms @ ?mes). getMatrixTagID sp n = Inr i}"
    using mt0(2) mt(2) by auto
  show "\<exists>ti. (TaggingInterface_ctor sp obj :: error + 'a TaggingInterface) = Inr ti \<and>
      fset (vector_tags ti) = {i. \<exists>n \<in> set (?vs @ ?ves). getVectorTagID sp n = Inr i} \<and>
      fset (matrix_tags ti) = {i. \<exists>n \<in> set (?ms @ ?mes). getMatrixTagID sp n = Inr i} \<and>
      distinct (sorted_list_of_fset (vector_tags ti)) \<and>
      distinct (sorted_list_of_fset (matrix_tags ti))"
    unfolding c using sv sm by (simp add: distinct_sorted_list_of_fset)
qed

text \<open>
  C4 as stated fails: a non-empty selection does not make construction succeed. The
  kernel below selects the vector tag \<open>mine\<close>, which the registry lacks, has the default
  matrix tag and no extra tags; resolving \<open>mine\<close> raises and no object results.
\<close>

theorem ctor_unresolved_selection_fails:
  "isValid (param_vector_tags (parameters unregistered_object)) \<and>
   isValid (param_matrix_tags (parameters unregistered_object)) \<and>
   param_extra_vector_tags (parameters unregistered_object) = [] \<and>
   param_extra_matrix_tags (parameters unregistered_object) = [] \<and>
   (TaggingInterface_ctor example_registry unregistered_object :: error + real TaggingInterface) =
     Inl (MooseError [Str ''Vector tag: '', Str ''mine'', Str '' does not exist''])"
  by (simp add: ctor_examples) (simp add: unregistered_object_def validParams_def isValid_def)

text \<open>
  The kernel \<open>diff\<close> names \<open>time\<close> twice (selected and extra): its construction succeeds
  with the vector tags 0 and 1 and the matrix tags 0 and 1, two of each.
\<close>

theorem ctor_active_sets_are_resolved_ids_witness:
  "\<exists>ti. (TaggingInterface_ctor example_registry example_object :: error + real TaggingInterface) =
          Inr ti \<and>
        fset (vector_tags ti) = {0, 1} \<and> fset (matrix_tags ti) = {0, 1} \<and>
        fcard (vector_tags ti) = 2 \<and> fcard (matrix_tags ti) = 2 \<and>
        length (param_vector_tags (parameters example_object) @
                param_extra_vector_tags (parameters example_object)) = 3"
proof -
  let ?obj = example_object and ?sp = example_registry
  have h: "isValid (param_vector_tags (parameters ?obj)) \<and>
     isValid (param_matrix_tags (parameters ?obj)) \<and>
     (\<forall>n \<in> set (param_vector_tags (parameters ?obj) @ param_extra_vector_tags (parameters ?obj)).
        \<exists>i. getVectorTagID ?sp n = Inr i) \<and>
     (\<forall>n \<in> set (param_matrix_tags (parameters ?obj) @ param_extra_matrix_tags (parameters ?obj)).
        \<exists>i. getMatrixTagID ?sp n = Inr i)"
    by (simp add: example_object_def example_registry_def table_registry_def isValid_def)
  have sv: "{i. \<exists>n \<in> set (param_vector_tags (parameters ?obj) @ param_extra_vector_tags (parameters ?obj)).
              getVectorTagID ?sp n = Inr i} = {0, 1}"
    by (auto simp: example_object_def example_registry_def table_registry_def)
  have sm: "{i. \<exists>n \<in> set (param_matrix_tags (parameters ?obj) @ param_extra_matrix_tags (parameters ?obj)).
              getMatrixTagID ?sp n = Inr i} = {0, 1}"
    by (auto simp: example_object_def example_registry_def table_registry_def)
  from ctor_active_sets_are_resolved_ids [of ?obj ?sp] h
  obtain ti :: "real TaggingInterface" where
    ti: "TaggingInterface_ctor ?sp ?obj = Inr ti"
        "fset (vector_tags ti) = {i. \<exists>n \<in> set (param_vector_tags (parameters ?obj) @
            param_extra_vector_tags (parameters ?obj)). getVectorTagID ?sp n = Inr i}"
        "fset (matrix_tags ti) = {i. \<exists>n \<in> set (param_matrix_tags (parameters ?obj) @
            param_extra_matrix_tags (parameters ?obj)). getMatrixTagID ?sp n = Inr i}"
    by blast
  have fv: "fset (vector_tags ti) = {0, 1}" using ti(2) by (simp only: sv)
  have fm: "fset (matrix_tags ti) = {0, 1}" using ti(3) by (simp only: sm)
  have c: "fcard (vector_tags ti) = 2" "fcard (matrix_tags ti) = 2"
    by (simp_all add: fcard.rep_eq fv fm)
  have l: "length (param_vector_tags (parameters ?obj) @ param_extra_vector_tags (parameters ?obj)) = 3"
    by (simp add: example_object_def)
  from ti(1) fv fm c l show ?thesis by blast
qed

text \<open>
  C5, amended. A selection is empty, or unset, when \<open>isValid()\<close> is false: no name is
  selected. Construction with an empty \<open>vector_tags\<close> selection fails with the error
  whose message is \<open>MUST provide at least one vector_tag for Kernel: \<close> followed by the
  name of the object. Construction with a non-empty \<open>vector_tags\<close> selection whose names
  and extra vector tag names all resolve, and an empty \<open>matrix_tags\<close> selection, fails with
  the error whose message is \<open>MUST provide at least one matrix_tag for Kernel: \<close> followed
  by the name of the object. With either selection empty construction fails in every case,
  and no object results.
\<close>

theorem ctor_empty_selection_fails:
  "(\<not> isValid (param_vector_tags (parameters obj)) \<longrightarrow>
      (TaggingInterface_ctor sp obj :: error + ('a::zero) TaggingInterface) =
        Inl (MooseError [Str ''MUST provide at least one vector_tag for Kernel: '', Str (name obj)])) \<and>
   (isValid (param_vector_tags (parameters obj)) \<and>
    (\<forall>n \<in> set (param_vector_tags (parameters obj) @ param_extra_vector_tags (parameters obj)).
       \<exists>i. getVectorTagID sp n = Inr i) \<and>
    \<not> isValid (param_matrix_tags (parameters obj)) \<longrightarrow>
      (TaggingInterface_ctor sp obj :: error + 'a TaggingInterface) =
        Inl (MooseError [Str ''MUST provide at least one matrix_tag for Kernel: '', Str (name obj)])) \<and>
   (\<not> isValid (param_vector_tags (parameters obj)) \<or> \<not> isValid (param_matrix_tags (parameters obj)) \<longrightarrow>
      (\<exists>e. (TaggingInterface_ctor sp obj :: error + 'a TaggingInterface) = Inl e))"
proof (intro conjI impI)
  assume "\<not> isValid (param_vector_tags (parameters obj))"
  then show "(TaggingInterface_ctor sp obj :: error + 'a TaggingInterface) =
        Inl (MooseError [Str ''MUST provide at least one vector_tag for Kernel: '', Str (name obj)])"
    by (simp add: TaggingInterface_ctor_def no_vector_tag_error_def)
next
  let ?vs = "param_vector_tags (parameters obj)" and ?ves = "param_extra_vector_tags (parameters obj)"
  assume H: "isValid ?vs \<and> (\<forall>n \<in> set (?vs @ ?ves). \<exists>i. getVectorTagID sp n = Inr i) \<and>
    \<not> isValid (param_matrix_tags (parameters obj))"
  have v1: "\<forall>n\<in>set ?vs. \<exists>i. getVectorTagID sp n = Inr i"
    and v2: "\<forall>n\<in>set ?ves. \<exists>i. getVectorTagID sp n = Inr i"
    using H by auto
  from insert_tag_ids_resolved [OF v1, of "{||}"] obtain vt0 where
    vt0: "insert_tag_ids (getVectorTagID sp) ?vs {||} = Inr vt0" by auto
  from insert_tag_ids_resolved [OF v2, of vt0] obtain vt where
    vt: "insert_tag_ids (getVectorTagID sp) ?ves vt0 = Inr vt" by auto
  show "(TaggingInterface_ctor sp obj :: error + 'a TaggingInterface) =
        Inl (MooseError [Str ''MUST provide at least one matrix_tag for Kernel: '', Str (name obj)])"
    using H vt0 vt by (simp add: TaggingInterface_ctor_def no_matrix_tag_error_def)
next
  assume "\<not> isValid (param_vector_tags (parameters obj)) \<or> \<not> isValid (param_matrix_tags (parameters obj))"
  then show "\<exists>e. (TaggingInterface_ctor sp obj :: error + 'a TaggingInterface) = Inl e"
    by (auto simp: TaggingInterface_ctor_def split: sum.splits)
qed

text \<open>
  C5 as stated fails: an empty \<open>matrix_tags\<close> selection does not always give that error.
  The kernel below has no matrix tag, the default vector tag and the extra vector tag
  \<open>mine\<close>, which the registry lacks. The vector tags are resolved before \<open>matrix_tags\<close> is
  checked, so construction fails with the error of the registry, not with either of the two
  errors above.
\<close>

theorem ctor_lookup_error_before_matrix_check:
  "\<not> isValid (param_matrix_tags (parameters no_matrix_tag_unregistered_extra_object)) \<and>
   (TaggingInterface_ctor example_registry no_matrix_tag_unregistered_extra_object
      :: error + real TaggingInterface) =
     Inl (MooseError [Str ''Vector tag: '', Str ''mine'', Str '' does not exist'']) \<and>
   (TaggingInterface_ctor example_registry no_matrix_tag_unregistered_extra_object
      :: error + real TaggingInterface) \<noteq>
     Inl (MooseError [Str ''MUST provide at least one matrix_tag for Kernel: '', Str ''diff'']) \<and>
   (TaggingInterface_ctor example_registry no_matrix_tag_unregistered_extra_object
      :: error + real TaggingInterface) \<noteq>
     Inl (MooseError [Str ''MUST provide at least one vector_tag for Kernel: '', Str ''diff''])"
  by (simp add: ctor_examples)
     (simp add: no_matrix_tag_unregistered_extra_object_def validParams_def isValid_def)

text \<open>
  The kernel \<open>diff\<close> with no vector tag, and with the default vector tag and no matrix tag.
\<close>

theorem ctor_empty_selection_fails_witness:
  "(TaggingInterface_ctor example_registry no_vector_tag_object :: error + real TaggingInterface) =
     Inl (MooseError [Str ''MUST provide at least one vector_tag for Kernel: '', Str ''diff'']) \<and>
   (TaggingInterface_ctor example_registry no_matrix_tag_object :: error + real TaggingInterface) =
     Inl (MooseError [Str ''MUST provide at least one matrix_tag for Kernel: '', Str ''diff''])"
proof -
  have 1: "\<not> isValid (param_vector_tags (parameters no_vector_tag_object))"
    by (simp add: no_vector_tag_object_def isValid_def)
  have 2: "isValid (param_vector_tags (parameters no_matrix_tag_object)) \<and>
    (\<forall>n \<in> set (param_vector_tags (parameters no_matrix_tag_object) @
                param_extra_vector_tags (parameters no_matrix_tag_object)).
       \<exists>i. getVectorTagID example_registry n = Inr i) \<and>
    \<not> isValid (param_matrix_tags (parameters no_matrix_tag_object))"
    by (simp add: no_matrix_tag_object_def validParams_def isValid_def example_registry_def
        table_registry_def)
  have n: "name no_vector_tag_object = ''diff''" "name no_matrix_tag_object = ''diff''"
    by (simp_all add: no_vector_tag_object_def no_matrix_tag_object_def)
  from ctor_empty_selection_fails [of no_vector_tag_object example_registry, where ?'a = real]
    ctor_empty_selection_fails [of no_matrix_tag_object example_registry, where ?'a = real] 1 2
  show ?thesis by (simp only: n) blast
qed

subsection \<open>Adding a tag\<close>

text \<open>
  C6. When the registry says that a tag name, or a tag id, does not exist in the
  namespace, \<open>useVectorTag\<close> (\<open>useMatrixTag\<close>) raises the error \<open>Vector tag ... does not exsit
  in system\<close> (\<open>Matrix tag ...\<close>) and the object is as before the call; in particular the
  active tag set is unchanged.
\<close>

theorem use_unregistered_tag_fails:
  "(\<not> vectorTagExists sp tag_name \<longrightarrow>
      useVectorTag sp tag_name ti =
        Failed (MooseError [Str ''Vector tag '', Str tag_name, Str '' does not exsit in system'']) ti \<and>
      vector_tags (state_of (useVectorTag sp tag_name ti)) = vector_tags ti) \<and>
   (\<not> matrixTagExists sp tag_name \<longrightarrow>
      useMatrixTag sp tag_name ti =
        Failed (MooseError [Str ''Matrix tag '', Str tag_name, Str '' does not exsit in system'']) ti \<and>
      matrix_tags (state_of (useMatrixTag sp tag_name ti)) = matrix_tags ti) \<and>
   (\<not> vectorTagExistsID sp tag_id \<longrightarrow>
      useVectorTagID sp tag_id ti =
        Failed (MooseError [Str ''Vector tag '', Num tag_id, Str '' does not exsit in system'']) ti \<and>
      vector_tags (state_of (useVectorTagID sp tag_id ti)) = vector_tags ti) \<and>
   (\<not> matrixTagExistsID sp tag_id \<longrightarrow>
      useMatrixTagID sp tag_id ti =
        Failed (MooseError [Str ''Matrix tag '', Num tag_id, Str '' does not exsit in system'']) ti \<and>
      matrix_tags (state_of (useMatrixTagID sp tag_id ti)) = matrix_tags ti)"
  by (simp add: useVectorTag_def useMatrixTag_def useVectorTagID_def useMatrixTagID_def)

text \<open>The registry of the examples has no tag \<open>mine\<close> and no tag 7.\<close>

theorem use_unregistered_tag_fails_witness:
  "useVectorTag example_registry ''mine'' example_kernel =
     Failed (MooseError [Str ''Vector tag '', Str ''mine'', Str '' does not exsit in system''])
       example_kernel \<and>
   useMatrixTag example_registry ''mine'' example_kernel =
     Failed (MooseError [Str ''Matrix tag '', Str ''mine'', Str '' does not exsit in system''])
       example_kernel \<and>
   useVectorTagID example_registry 7 example_kernel =
     Failed (MooseError [Str ''Vector tag '', Num 7, Str '' does not exsit in system''])
       example_kernel \<and>
   useMatrixTagID example_registry 7 example_kernel =
     Failed (MooseError [Str ''Matrix tag '', Num 7, Str '' does not exsit in system''])
       example_kernel \<and>
   vector_tags (state_of (useVectorTag example_registry ''mine'' example_kernel)) = {|0, 1|} \<and>
   matrix_tags (state_of (useMatrixTagID example_registry 7 example_kernel)) = {|0, 1|}"
proof -
  have k: "vector_tags example_kernel = {|0, 1|}" "matrix_tags example_kernel = {|0, 1|}"
    by (simp_all add: example_kernel_def)
  from use_unregistered_tag_fails [of example_registry "''mine''" example_kernel 7]
    example_registry_unregistered k
  show ?thesis by simp
qed

text \<open>
  C7. Calling \<open>useVectorTag\<close> (\<open>useMatrixTag\<close>) with a tag that is already in the active set,
  by its id or by a name that resolves to it, leaves the active set as it was, and so its
  size; after any number \<open>k\<close> of such calls the set is still the same and iterating it
  meets the tag exactly once.
\<close>

theorem use_active_tag_idempotent:
  "(t |\<in>| vector_tags ti \<longrightarrow>
      vector_tags (state_of (useVectorTagID sp t ti)) = vector_tags ti \<and>
      fcard (vector_tags (state_of (useVectorTagID sp t ti))) = fcard (vector_tags ti) \<and>
      vector_tags (((\<lambda>s. state_of (useVectorTagID sp t s)) ^^ k) ti) = vector_tags ti \<and>
      count_list (sorted_list_of_fset (vector_tags (((\<lambda>s. state_of (useVectorTagID sp t s)) ^^ k) ti))) t = 1) \<and>
   (t |\<in>| matrix_tags ti \<longrightarrow>
      matrix_tags (state_of (useMatrixTagID sp t ti)) = matrix_tags ti \<and>
      fcard (matrix_tags (state_of (useMatrixTagID sp t ti))) = fcard (matrix_tags ti) \<and>
      matrix_tags (((\<lambda>s. state_of (useMatrixTagID sp t s)) ^^ k) ti) = matrix_tags ti \<and>
      count_list (sorted_list_of_fset (matrix_tags (((\<lambda>s. state_of (useMatrixTagID sp t s)) ^^ k) ti))) t = 1) \<and>
   (getVectorTagID sp n = Inr t \<and> t |\<in>| vector_tags ti \<longrightarrow>
      vector_tags (state_of (useVectorTag sp n ti)) = vector_tags ti \<and>
      fcard (vector_tags (state_of (useVectorTag sp n ti))) = fcard (vector_tags ti) \<and>
      vector_tags (((\<lambda>s. state_of (useVectorTag sp n s)) ^^ k) ti) = vector_tags ti \<and>
      count_list (sorted_list_of_fset (vector_tags (((\<lambda>s. state_of (useVectorTag sp n s)) ^^ k) ti))) t = 1) \<and>
   (getMatrixTagID sp n = Inr t \<and> t |\<in>| matrix_tags ti \<longrightarrow>
      matrix_tags (state_of (useMatrixTag sp n ti)) = matrix_tags ti \<and>
      fcard (matrix_tags (state_of (useMatrixTag sp n ti))) = fcard (matrix_tags ti) \<and>
      matrix_tags (((\<lambda>s. state_of (useMatrixTag sp n s)) ^^ k) ti) = matrix_tags ti \<and>
      count_list (sorted_list_of_fset (matrix_tags (((\<lambda>s. state_of (useMatrixTag sp n s)) ^^ k) ti))) t = 1)"
proof (intro conjI impI)
  assume a: "t |\<in>| vector_tags ti"
  have f: "((\<lambda>s. state_of (useVectorTagID sp t s)) ^^ k) ti = ti"
    by (rule funpow_fixed) (rule use_active_unchanged(1) [OF a])
  show "vector_tags (state_of (useVectorTagID sp t ti)) = vector_tags ti"
    "fcard (vector_tags (state_of (useVectorTagID sp t ti))) = fcard (vector_tags ti)"
    "vector_tags (((\<lambda>s. state_of (useVectorTagID sp t s)) ^^ k) ti) = vector_tags ti"
    "count_list (sorted_list_of_fset (vector_tags (((\<lambda>s. state_of (useVectorTagID sp t s)) ^^ k) ti))) t = 1"
    using a by (simp_all only: f use_active_unchanged(1) [OF a] count_sorted_list_of_fset)
next
  assume a: "t |\<in>| matrix_tags ti"
  have f: "((\<lambda>s. state_of (useMatrixTagID sp t s)) ^^ k) ti = ti"
    by (rule funpow_fixed) (rule use_active_unchanged(2) [OF a])
  show "matrix_tags (state_of (useMatrixTagID sp t ti)) = matrix_tags ti"
    "fcard (matrix_tags (state_of (useMatrixTagID sp t ti))) = fcard (matrix_tags ti)"
    "matrix_tags (((\<lambda>s. state_of (useMatrixTagID sp t s)) ^^ k) ti) = matrix_tags ti"
    "count_list (sorted_list_of_fset (matrix_tags (((\<lambda>s. state_of (useMatrixTagID sp t s)) ^^ k) ti))) t = 1"
    using a by (simp_all only: f use_active_unchanged(2) [OF a] count_sorted_list_of_fset)
next
  assume "getVectorTagID sp n = Inr t \<and> t |\<in>| vector_tags ti"
  then have g: "getVectorTagID sp n = Inr t" and a: "t |\<in>| vector_tags ti" by simp_all
  have f: "((\<lambda>s. state_of (useVectorTag sp n s)) ^^ k) ti = ti"
    by (rule funpow_fixed) (rule use_active_unchanged(3) [OF g a])
  show "vector_tags (state_of (useVectorTag sp n ti)) = vector_tags ti"
    "fcard (vector_tags (state_of (useVectorTag sp n ti))) = fcard (vector_tags ti)"
    "vector_tags (((\<lambda>s. state_of (useVectorTag sp n s)) ^^ k) ti) = vector_tags ti"
    "count_list (sorted_list_of_fset (vector_tags (((\<lambda>s. state_of (useVectorTag sp n s)) ^^ k) ti))) t = 1"
    using a by (simp_all only: f use_active_unchanged(3) [OF g a] count_sorted_list_of_fset)
next
  assume "getMatrixTagID sp n = Inr t \<and> t |\<in>| matrix_tags ti"
  then have g: "getMatrixTagID sp n = Inr t" and a: "t |\<in>| matrix_tags ti" by simp_all
  have f: "((\<lambda>s. state_of (useMatrixTag sp n s)) ^^ k) ti = ti"
    by (rule funpow_fixed) (rule use_active_unchanged(4) [OF g a])
  show "matrix_tags (state_of (useMatrixTag sp n ti)) = matrix_tags ti"
    "fcard (matrix_tags (state_of (useMatrixTag sp n ti))) = fcard (matrix_tags ti)"
    "matrix_tags (((\<lambda>s. state_of (useMatrixTag sp n s)) ^^ k) ti) = matrix_tags ti"
    "count_list (sorted_list_of_fset (matrix_tags (((\<lambda>s. state_of (useMatrixTag sp n s)) ^^ k) ti))) t = 1"
    using a by (simp_all only: f use_active_unchanged(4) [OF g a] count_sorted_list_of_fset)
qed

text \<open>
  The default kernel has the vector tag 0 only. After \<open>useVectorTag\<close> with \<open>time\<close> it has
  the tags 0 and 1; calling \<open>useVectorTag\<close> with \<open>time\<close> again, once or three times, leaves
  these two tags, and \<open>time\<close> (1) is met once. The same for the id 1, and for the matrix tag
  \<open>system\<close> (0) of the kernel \<open>diff\<close>.
\<close>

theorem use_active_tag_idempotent_witness:
  "useVectorTag example_registry ''time'' default_kernel =
     Done (default_kernel\<lparr>vector_tags := {|0, 1|}\<rparr>) \<and>
   vector_tags (state_of (useVectorTag example_registry ''time''
     (default_kernel\<lparr>vector_tags := {|0, 1|}\<rparr>))) = {|0, 1|} \<and>
   fcard (vector_tags (state_of (useVectorTag example_registry ''time''
     (default_kernel\<lparr>vector_tags := {|0, 1|}\<rparr>)))) = 2 \<and>
   count_list (sorted_list_of_fset (vector_tags
     (((\<lambda>s. state_of (useVectorTag example_registry ''time'' s)) ^^ 3)
        (default_kernel\<lparr>vector_tags := {|0, 1|}\<rparr>)))) 1 = 1 \<and>
   vector_tags (state_of (useVectorTagID example_registry 1
     (default_kernel\<lparr>vector_tags := {|0, 1|}\<rparr>))) = {|0, 1|} \<and>
   matrix_tags (state_of (useMatrixTag example_registry ''system'' example_kernel)) = {|0, 1|} \<and>
   matrix_tags (state_of (useMatrixTagID example_registry 0 example_kernel)) = {|0, 1|}"
proof -
  let ?k = "default_kernel\<lparr>vector_tags := {|0, 1|}\<rparr>"
  have v: "getVectorTagID example_registry ''time'' = Inr 1 \<and> 1 |\<in>| vector_tags ?k"
    and vi: "1 |\<in>| vector_tags ?k"
    by (simp_all add: example_registry_def table_registry_def)
  have m: "getMatrixTagID example_registry ''system'' = Inr 0 \<and> 0 |\<in>| matrix_tags example_kernel"
    and mi: "0 |\<in>| matrix_tags example_kernel"
    by (simp_all add: example_registry_def table_registry_def example_kernel_def)
  have c: "fcard (vector_tags ?k) = 2" by (simp add: fcard_finsert_if)
  have e: "vector_tags ?k = {|0, 1|}" "matrix_tags example_kernel = {|0, 1|}"
    by (simp_all add: example_kernel_def)
  note T1 = use_active_tag_idempotent [where sp = example_registry and t = 1 and ti = ?k
      and n = "''time''" and k = 3]
  note T2 = use_active_tag_idempotent [where sp = example_registry and t = 0 and ti = example_kernel
      and n = "''system''" and k = 3]
  from T1 v have a:
    "vector_tags (state_of (useVectorTag example_registry ''time'' ?k)) = vector_tags ?k"
    "fcard (vector_tags (state_of (useVectorTag example_registry ''time'' ?k))) = fcard (vector_tags ?k)"
    "count_list (sorted_list_of_fset (vector_tags
       (((\<lambda>s. state_of (useVectorTag example_registry ''time'' s)) ^^ 3) ?k))) 1 = 1"
    by blast+
  from T1 vi have b:
    "vector_tags (state_of (useVectorTagID example_registry 1 ?k)) = vector_tags ?k"
    by blast
  from T2 m have d:
    "matrix_tags (state_of (useMatrixTag example_registry ''system'' example_kernel)) =
       matrix_tags example_kernel"
    by blast
  from T2 mi have f:
    "matrix_tags (state_of (useMatrixTagID example_registry 0 example_kernel)) =
       matrix_tags example_kernel"
    by blast
  from a b d f show ?thesis
    by (simp only: use_time_default c e) (simp add: fcard_finsert_if)
qed

text \<open>
  C8, amended. Construction leaves each pointer array with as many entries as its active
  tag set has tags. \<open>useVectorTag\<close> and \<open>useMatrixTag\<close>, by name or by id, leave the pointer
  arrays as they were. \<open>prepareVectorTag\<close> (\<open>prepareMatrixTag\<close>) leaves the vector (matrix)
  pointer array with as many entries as the active set has tags, whatever the array was
  before: it is the prepare call that resizes the array after a tag was added.
\<close>

theorem binding_array_sizes:
  fixes ti ti' :: "('a::zero) TaggingInterface"
  shows
  "(TaggingInterface_ctor sp obj = Inr ti \<longrightarrow>
      length (re_blocks ti) = fcard (vector_tags ti) \<and> length (ke_blocks ti) = fcard (matrix_tags ti)) \<and>
   re_blocks (state_of (useVectorTag sp n ti')) = re_blocks ti' \<and>
   re_blocks (state_of (useVectorTagID sp t ti')) = re_blocks ti' \<and>
   ke_blocks (state_of (useMatrixTag sp n ti')) = ke_blocks ti' \<and>
   ke_blocks (state_of (useMatrixTagID sp t ti')) = ke_blocks ti' \<and>
   length (re_blocks (fst (state_of (prepareVectorTag ivar (ti', a))))) =
     fcard (vector_tags (fst (state_of (prepareVectorTag ivar (ti', a))))) \<and>
   length (ke_blocks (fst (state_of (prepareMatrixTag ivar jvar (ti', a))))) =
     fcard (matrix_tags (fst (state_of (prepareMatrixTag ivar jvar (ti', a)))))"
  using ctor_sizes [of sp obj ti] prepareVectorTag_sizes [of ivar ti' a] prepareMatrixTag_sizes [of ivar jvar ti' a]
  by (simp add: use_keeps_blocks)

text \<open>
  C8 as stated fails: adding a tag does not resize the pointer array. The default kernel
  is constructed with one vector tag and an array of one entry; after \<open>useVectorTag\<close> with
  \<open>time\<close> it has two vector tags and still an array of one entry.
\<close>

theorem use_tag_leaves_array_short:
  "(TaggingInterface_ctor example_registry default_object :: error + real TaggingInterface) =
     Inr default_kernel \<and>
   is_Done (useVectorTag example_registry ''time'' default_kernel) \<and>
   fcard (vector_tags (state_of (useVectorTag example_registry ''time'' default_kernel))) = 2 \<and>
   length (re_blocks (state_of (useVectorTag example_registry ''time'' default_kernel))) = 1"
  by (simp add: ctor_examples use_time_default fcard_finsert_if) (simp add: default_kernel_def)

text \<open>
  The default kernel again: one entry for one tag after construction, still one entry
  after \<open>useVectorTag\<close> with \<open>time\<close>, and two entries after the next \<open>prepareVectorTag\<close>.
\<close>

theorem binding_array_sizes_witness:
  "(TaggingInterface_ctor example_registry default_object :: error + real TaggingInterface) =
     Inr default_kernel \<and>
   length (re_blocks default_kernel) = fcard (vector_tags default_kernel) \<and>
   length (ke_blocks default_kernel) = fcard (matrix_tags default_kernel) \<and>
   re_blocks (state_of (useVectorTag example_registry ''time'' default_kernel)) = [None] \<and>
   length (re_blocks (fst (state_of (prepareVectorTag 0
      (state_of (useVectorTag example_registry ''time'' default_kernel), example_assembly))))) = 2"
proof -
  let ?k = "state_of (useVectorTag example_registry ''time'' default_kernel)"
  have r: "re_blocks default_kernel = [None]" by (simp add: default_kernel_def)
  have c: "fcard (vector_tags ?k) = 2" by (simp add: use_time_default fcard_finsert_if)
  have ne: "vector_tags ?k \<noteq> {||}" by (simp add: use_time_default)
  have v: "vector_tags (fst (state_of (prepareVectorTag 0 (?k, example_assembly)))) = vector_tags ?k"
    by (simp add: prepareVectorTag_Done [OF ne])
  from binding_array_sizes [where sp = example_registry and obj = default_object
      and ti = default_kernel and ti' = default_kernel and n = "''time''"]
    binding_array_sizes [where ti' = ?k and ivar = 0 and a = example_assembly and ti = default_kernel]
    ctor_examples(2) r c v
  show ?thesis by simp
qed

end
